theory Spec2Isabelle
  imports Complex_Main "HOL-Library.AList" "HOL-Library.Char_ord" "HOL-Library.List_Lexorder"
begin

section \<open>Decoded values\<close>

text \<open>
  The importer works on what \<^verbatim>\<open>YAML.parse\<close> returns and the exporter builds what
  \<^verbatim>\<open>YAML.stringify\<close> receives: plain JavaScript values. An object is kept as the list
  of its own entries in enumeration order. \<^verbatim>\<open>undefined\<close> is not a decoded value; a place
  that can hold it has type \<open>jsval option\<close> and \<open>None\<close> stands for it. Numbers are
  rationals (NaN and the infinities are left out).

  TypeScript's casts (\<^verbatim>\<open>as string\<close>) are erased at run time, so a scalar field that the
  importer fills by a cast holds whatever value the text had there. Such fields have type
  \<open>jsval\<close> in the records below; a field written from application code with a string
  holds \<open>JStr\<close> of it.
\<close>

datatype jsval =
    JNull
  | JBool bool
  | JNum rat
  | JStr string
  | JArr "jsval list"
  | JObj "(string \<times> jsval) list"

text \<open>JavaScript truthiness (\<^verbatim>\<open>if (v)\<close>, \<^verbatim>\<open>v || d\<close>, \<^verbatim>\<open>!v\<close>).\<close>

fun truthy :: "jsval \<Rightarrow> bool" where
  "truthy JNull = False"
| "truthy (JBool b) = b"
| "truthy (JNum r) = (r \<noteq> 0)"
| "truthy (JStr s) = (s \<noteq> [])"
| "truthy (JArr xs) = True"
| "truthy (JObj kvs) = True"

fun truthy_opt :: "jsval option \<Rightarrow> bool" where
  "truthy_opt None = False"
| "truthy_opt (Some v) = truthy v"

text \<open>\<^verbatim>\<open>v || d\<close> on a place that may be undefined.\<close>

definition or_default :: "jsval option \<Rightarrow> jsval \<Rightarrow> jsval" where
  "or_default v d = (case v of Some x \<Rightarrow> (if truthy x then x else d) | None \<Rightarrow> d)"

text \<open>A place read only when truthy (\<^verbatim>\<open>if (d.x) r.x = d.x\<close>): falsy values read as absent.\<close>

definition when_truthy :: "jsval option \<Rightarrow> jsval option" where
  "when_truthy v = (if truthy_opt v then v else None)"

text \<open>
  Property read \<^verbatim>\<open>v.k\<close> on a value that is not \<^verbatim>\<open>null\<close>: an object yields its entry,
  every other value yields \<^verbatim>\<open>undefined\<close> (none of the keys the importer reads is a
  prototype property of strings, numbers, booleans or arrays).
\<close>

fun field :: "jsval \<Rightarrow> string \<Rightarrow> jsval option" where
  "field (JObj kvs) k = map_of kvs k"
| "field v k = None"

text \<open>Optional chaining \<^verbatim>\<open>v?.k\<close>: \<^verbatim>\<open>undefined\<close> and \<^verbatim>\<open>null\<close> give \<^verbatim>\<open>undefined\<close>.\<close>

fun field_opt :: "jsval option \<Rightarrow> string \<Rightarrow> jsval option" where
  "field_opt None k = None"
| "field_opt (Some v) k = field v k"

text \<open>\<^verbatim>\<open>typeof v === 'object'\<close>: objects, arrays and \<^verbatim>\<open>null\<close>.\<close>

fun typeof_object :: "jsval \<Rightarrow> bool" where
  "typeof_object JNull = True"
| "typeof_object (JArr xs) = True"
| "typeof_object (JObj kvs) = True"
| "typeof_object v = False"

text \<open>Decimal digits of an array index, as \<^verbatim>\<open>Object.entries\<close> names array elements.\<close>

definition digit_char :: "nat \<Rightarrow> char" where
  "digit_char d = char_of (48 + d)"

function decimal :: "nat \<Rightarrow> string" where
  "decimal n = (if n < 10 then [digit_char n] else decimal (n div 10) @ [digit_char (n mod 10)])"
  by pat_completeness auto
termination
  by (relation "measure (\<lambda>n. n)") auto

declare decimal.simps [simp del]

text \<open>
  \<^verbatim>\<open>Object.entries(v)\<close> on a value that is not \<^verbatim>\<open>null\<close>: the entries of an object, the
  indexed elements of an array, the indexed characters of a string, nothing for numbers
  and booleans. Every call site guards the argument by truthiness, so \<^verbatim>\<open>null\<close> (on which
  JavaScript throws) never reaches it.
\<close>

fun entries :: "jsval \<Rightarrow> (string \<times> jsval) list" where
  "entries (JObj kvs) = kvs"
| "entries (JArr xs) = zip (map decimal [0..<length xs]) xs"
| "entries (JStr s) = zip (map decimal [0..<length s]) (map (\<lambda>c. JStr [c]) s)"
| "entries v = []"

section \<open>The document graph (types.ts)\<close>

type_synonym NodeId = string

datatype SchemaType =
  T_object | T_array | T_string | T_number | T_integer | T_boolean | T_enum
  | T_oneOf | T_anyOf | T_allOf

fun schemaTypeName :: "SchemaType \<Rightarrow> string" where
  "schemaTypeName T_object = ''object''"
| "schemaTypeName T_array = ''array''"
| "schemaTypeName T_string = ''string''"
| "schemaTypeName T_number = ''number''"
| "schemaTypeName T_integer = ''integer''"
| "schemaTypeName T_boolean = ''boolean''"
| "schemaTypeName T_enum = ''enum''"
| "schemaTypeName T_oneOf = ''oneOf''"
| "schemaTypeName T_anyOf = ''anyOf''"
| "schemaTypeName T_allOf = ''allOf''"

record Discriminator =
  propertyName :: "jsval option"
  mapping :: "(string \<times> string) list option"

text \<open>
  \<^verbatim>\<open>SchemaOrRef\<close> is the typed edge; \<^verbatim>\<open>SchemaNode\<close> and \<^verbatim>\<open>PropertyDef\<close> are the
  interfaces of the same names. A JavaScript \<^verbatim>\<open>Map\<close> keeps insertion order, so it is an
  association list with distinct keys: \<open>map_of\<close> is \<^verbatim>\<open>get\<close>, \<open>AList.update\<close> is
  \<^verbatim>\<open>set\<close> (in place for a present key, at the end for a new one), \<open>AList.delete\<close>
  is \<^verbatim>\<open>delete\<close>. Field names carry a prefix because the interfaces share them.
\<close>

datatype SchemaOrRef =
    SchemaRef (targetId: NodeId)
  | InlineSchema (inl_schema: SchemaNode)
and SchemaNode = SchemaNode
  (s_id: NodeId)
  (s_name: "string option")
  (s_type: SchemaType)
  (s_description: "jsval option")
  (s_properties: "(string \<times> PropertyDef) list option")
  (s_items: "SchemaOrRef option")
  (s_variants: "SchemaOrRef list option")
  (s_enumValues: "jsval list option")
  (s_required: "jsval list option")
  (s_format: "jsval option")
  (s_example: "jsval option")
  (s_default: "jsval option")
  (s_minimum: "jsval option")
  (s_maximum: "jsval option")
  (s_minLength: "jsval option")
  (s_maxLength: "jsval option")
  (s_pattern: "jsval option")
  (s_discriminator: "Discriminator option")
and PropertyDef = PropertyDef
  (pd_name: string)
  (pd_schema: SchemaOrRef)
  (pd_required: bool)
  (pd_description: "jsval option")

record ParameterDef =
  p_id :: NodeId
  p_name :: jsval
  p_in :: jsval
  p_required :: jsval
  p_schema :: SchemaOrRef
  p_description :: "jsval option"
  p_example :: "jsval option"

record MediaType =
  mt_schema :: SchemaOrRef
  mt_example :: "jsval option"

record RequestBody =
  rb_id :: NodeId
  rb_description :: "jsval option"
  rb_required :: jsval
  rb_content :: "(string \<times> MediaType) list"

record ResponseDef =
  resp_id :: NodeId
  resp_description :: jsval
  resp_content :: "(string \<times> MediaType) list option"
  resp_headers :: "(string \<times> ParameterDef) list option"

record SecurityScheme =
  ss_id :: NodeId
  ss_name :: string
  ss_type :: jsval
  ss_description :: "jsval option"
  ss_in :: "jsval option"
  ss_paramName :: "jsval option"
  ss_scheme :: "jsval option"
  ss_bearerFormat :: "jsval option"
  ss_flows :: "jsval option"
  ss_openIdConnectUrl :: "jsval option"

record SecurityRequirement =
  schemeId :: NodeId
  scopes :: "string list"

record Tag =
  tag_name :: jsval
  tag_description :: "jsval option"

record Server =
  srv_url :: jsval
  srv_description :: "jsval option"
  srv_variables :: "jsval option"

record Contact =
  c_name :: "jsval option"
  c_url :: "jsval option"
  c_email :: "jsval option"

record License =
  l_name :: jsval
  l_url :: "jsval option"

record InfoObject =
  title :: jsval
  version :: jsval
  i_description :: "jsval option"
  termsOfService :: "jsval option"
  contact :: "Contact option"
  license :: "License option"

record Route =
  r_id :: NodeId
  r_path :: string
  r_method :: string
  r_summary :: "jsval option"
  r_description :: "jsval option"
  r_operationId :: "jsval option"
  r_tags :: "jsval list"
  r_parameters :: "ParameterDef list"
  r_requestBody :: "RequestBody option"
  r_responses :: "(string \<times> ResponseDef) list"
  r_security :: "SecurityRequirement list option"
  r_deprecated :: "bool option"

text \<open>
  An array slot. Writing past the end of a JavaScript array leaves empty slots between the
  old end and the new element, and spreading an array (\<^verbatim>\<open>[...a]\<close>) reads an empty slot as
  \<^verbatim>\<open>undefined\<close>. Only the server list is written by index.
\<close>

datatype 'a slot = Hole | Undef | Elem 'a

record ApiDocument =
  d_id :: NodeId
  info :: InfoObject
  servers :: "Server slot list"
  routes :: "(NodeId \<times> Route) list"
  schemas :: "(NodeId \<times> SchemaNode) list"
  securitySchemes :: "(NodeId \<times> SecurityScheme) list"
  tags :: "Tag list"


section \<open>The editor store (store.ts)\<close>

subsection \<open>Partial updates\<close>

text \<open>
  \<^verbatim>\<open>Partial<T>\<close> is an object holding some of the keys of \<^verbatim>\<open>T\<close>, merged over the old
  value by \<^verbatim>\<open>{...old, ...updates}\<close>. \<open>None\<close> is a key that is not there; for an optional
  field of \<^verbatim>\<open>T\<close> the inner option is the value written, \<^verbatim>\<open>undefined\<close> included.
\<close>

definition override :: "'a \<Rightarrow> 'a option \<Rightarrow> 'a" where
  "override old u = (case u of None \<Rightarrow> old | Some v \<Rightarrow> v)"

record PartialInfo =
  u_title :: "jsval option"
  u_version :: "jsval option"
  u_i_description :: "jsval option option"
  u_termsOfService :: "jsval option option"
  u_contact :: "Contact option option"
  u_license :: "License option option"

definition mergeInfo :: "InfoObject \<Rightarrow> PartialInfo \<Rightarrow> InfoObject" where
  "mergeInfo i u =
     \<lparr> title = override (title i) (u_title u),
       version = override (version i) (u_version u),
       i_description = override (i_description i) (u_i_description u),
       termsOfService = override (termsOfService i) (u_termsOfService u),
       contact = override (contact i) (u_contact u),
       license = override (license i) (u_license u) \<rparr>"

record PartialSchema =
  u_s_id :: "NodeId option"
  u_s_name :: "string option option"
  u_s_type :: "SchemaType option"
  u_s_description :: "jsval option option"
  u_s_properties :: "(string \<times> PropertyDef) list option option"
  u_s_items :: "SchemaOrRef option option"
  u_s_variants :: "SchemaOrRef list option option"
  u_s_enumValues :: "jsval list option option"
  u_s_required :: "jsval list option option"
  u_s_format :: "jsval option option"
  u_s_example :: "jsval option option"
  u_s_default :: "jsval option option"
  u_s_minimum :: "jsval option option"
  u_s_maximum :: "jsval option option"
  u_s_minLength :: "jsval option option"
  u_s_maxLength :: "jsval option option"
  u_s_pattern :: "jsval option option"
  u_s_discriminator :: "Discriminator option option"

definition mergeSchema :: "SchemaNode \<Rightarrow> PartialSchema \<Rightarrow> SchemaNode" where
  "mergeSchema s u = SchemaNode
     (override (s_id s) (u_s_id u))
     (override (s_name s) (u_s_name u))
     (override (s_type s) (u_s_type u))
     (override (s_description s) (u_s_description u))
     (override (s_properties s) (u_s_properties u))
     (override (s_items s) (u_s_items u))
     (override (s_variants s) (u_s_variants u))
     (override (s_enumValues s) (u_s_enumValues u))
     (override (s_required s) (u_s_required u))
     (override (s_format s) (u_s_format u))
     (override (s_example s) (u_s_example u))
     (override (s_default s) (u_s_default u))
     (override (s_minimum s) (u_s_minimum u))
     (override (s_maximum s) (u_s_maximum u))
     (override (s_minLength s) (u_s_minLength u))
     (override (s_maxLength s) (u_s_maxLength u))
     (override (s_pattern s) (u_s_pattern u))
     (override (s_discriminator s) (u_s_discriminator u))"

record PartialProperty =
  u_pd_name :: "string option"
  u_pd_schema :: "SchemaOrRef option"
  u_pd_required :: "bool option"
  u_pd_description :: "jsval option option"

definition mergeProperty :: "PropertyDef \<Rightarrow> PartialProperty \<Rightarrow> PropertyDef" where
  "mergeProperty f u = PropertyDef
     (override (pd_name f) (u_pd_name u))
     (override (pd_schema f) (u_pd_schema u))
     (override (pd_required f) (u_pd_required u))
     (override (pd_description f) (u_pd_description u))"

record PartialRoute =
  u_r_id :: "NodeId option"
  u_r_path :: "string option"
  u_r_method :: "string option"
  u_r_summary :: "jsval option option"
  u_r_description :: "jsval option option"
  u_r_operationId :: "jsval option option"
  u_r_tags :: "jsval list option"
  u_r_parameters :: "ParameterDef list option"
  u_r_requestBody :: "RequestBody option option"
  u_r_responses :: "(string \<times> ResponseDef) list option"
  u_r_security :: "SecurityRequirement list option option"
  u_r_deprecated :: "bool option option"

definition mergeRoute :: "Route \<Rightarrow> PartialRoute \<Rightarrow> Route" where
  "mergeRoute r u =
     \<lparr> r_id = override (r_id r) (u_r_id u),
       r_path = override (r_path r) (u_r_path u),
       r_method = override (r_method r) (u_r_method u),
       r_summary = override (r_summary r) (u_r_summary u),
       r_description = override (r_description r) (u_r_description u),
       r_operationId = override (r_operationId r) (u_r_operationId u),
       r_tags = override (r_tags r) (u_r_tags u),
       r_parameters = override (r_parameters r) (u_r_parameters u),
       r_requestBody = override (r_requestBody r) (u_r_requestBody u),
       r_responses = override (r_responses r) (u_r_responses u),
       r_security = override (r_security r) (u_r_security u),
       r_deprecated = override (r_deprecated r) (u_r_deprecated u) \<rparr>"

record PartialParameter =
  u_p_id :: "NodeId option"
  u_p_name :: "jsval option"
  u_p_in :: "jsval option"
  u_p_required :: "jsval option"
  u_p_schema :: "SchemaOrRef option"
  u_p_description :: "jsval option option"
  u_p_example :: "jsval option option"

definition mergeParameter :: "ParameterDef \<Rightarrow> PartialParameter \<Rightarrow> ParameterDef" where
  "mergeParameter p u =
     \<lparr> p_id = override (p_id p) (u_p_id u),
       p_name = override (p_name p) (u_p_name u),
       p_in = override (p_in p) (u_p_in u),
       p_required = override (p_required p) (u_p_required u),
       p_schema = override (p_schema p) (u_p_schema u),
       p_description = override (p_description p) (u_p_description u),
       p_example = override (p_example p) (u_p_example u) \<rparr>"

record PartialResponse =
  u_resp_id :: "NodeId option"
  u_resp_description :: "jsval option"
  u_resp_content :: "(string \<times> MediaType) list option option"
  u_resp_headers :: "(string \<times> ParameterDef) list option option"

definition mergeResponse :: "ResponseDef \<Rightarrow> PartialResponse \<Rightarrow> ResponseDef" where
  "mergeResponse r u =
     \<lparr> resp_id = override (resp_id r) (u_resp_id u),
       resp_description = override (resp_description r) (u_resp_description u),
       resp_content = override (resp_content r) (u_resp_content u),
       resp_headers = override (resp_headers r) (u_resp_headers u) \<rparr>"

record PartialSecurityScheme =
  u_ss_id :: "NodeId option"
  u_ss_name :: "string option"
  u_ss_type :: "jsval option"
  u_ss_description :: "jsval option option"
  u_ss_in :: "jsval option option"
  u_ss_paramName :: "jsval option option"
  u_ss_scheme :: "jsval option option"
  u_ss_bearerFormat :: "jsval option option"
  u_ss_flows :: "jsval option option"
  u_ss_openIdConnectUrl :: "jsval option option"

definition mergeSecurityScheme :: "SecurityScheme \<Rightarrow> PartialSecurityScheme \<Rightarrow> SecurityScheme" where
  "mergeSecurityScheme s u =
     \<lparr> ss_id = override (ss_id s) (u_ss_id u),
       ss_name = override (ss_name s) (u_ss_name u),
       ss_type = override (ss_type s) (u_ss_type u),
       ss_description = override (ss_description s) (u_ss_description u),
       ss_in = override (ss_in s) (u_ss_in u),
       ss_paramName = override (ss_paramName s) (u_ss_paramName u),
       ss_scheme = override (ss_scheme s) (u_ss_scheme u),
       ss_bearerFormat = override (ss_bearerFormat s) (u_ss_bearerFormat u),
       ss_flows = override (ss_flows s) (u_ss_flows u),
       ss_openIdConnectUrl = override (ss_openIdConnectUrl s) (u_ss_openIdConnectUrl u) \<rparr>"

subsection \<open>Commands and state\<close>

text \<open>
  One constructor for each mutating action of the store, with the action's arguments.
  An index into the server list is a natural number (the callers pass array positions).
\<close>

datatype mutation =
    SetDocument ApiDocument
  | UpdateInfo PartialInfo
  | AddSchema SchemaNode
  | UpdateSchema NodeId PartialSchema
  | DeleteSchema NodeId
  | AddFieldToSchema NodeId PropertyDef
  | UpdateField NodeId string PartialProperty
  | DeleteField NodeId string
  | AddRoute Route
  | UpdateRoute NodeId PartialRoute
  | DeleteRoute NodeId
  | AddParameter NodeId ParameterDef
  | UpdateParameter NodeId NodeId PartialParameter
  | DeleteParameter NodeId NodeId
  | SetRequestBody NodeId "RequestBody option"
  | AddResponse NodeId string ResponseDef
  | UpdateResponse NodeId string PartialResponse
  | DeleteResponse NodeId string
  | AddServer Server
  | UpdateServer nat Server
  | DeleteServer nat
  | AddSecurityScheme SecurityScheme
  | UpdateSecurityScheme NodeId PartialSecurityScheme
  | DeleteSecurityScheme NodeId
  | AddTag Tag
  | DeleteTag string

datatype CommandType =
    ADD_SCHEMA | UPDATE_SCHEMA | DELETE_SCHEMA | ADD_FIELD | UPDATE_FIELD | DELETE_FIELD
  | ADD_ROUTE | UPDATE_ROUTE | DELETE_ROUTE | ADD_PARAMETER | UPDATE_PARAMETER
  | DELETE_PARAMETER | ADD_RESPONSE | UPDATE_RESPONSE | DELETE_RESPONSE | SET_REQUEST_BODY
  | UPDATE_INFO | ADD_SERVER | UPDATE_SERVER | DELETE_SERVER | ADD_SECURITY_SCHEME
  | UPDATE_SECURITY_SCHEME | DELETE_SECURITY_SCHEME | ADD_TAG | DELETE_TAG | IMPORT_DOCUMENT

text \<open>
  A log record. The payload of the source is the object built from the action's
  arguments; here it is the \<open>mutation\<close> value that carries the same arguments, and
  \<open>None\<close> is the \<^verbatim>\<open>null\<close> payload of \<^verbatim>\<open>IMPORT_DOCUMENT\<close>. The timestamp is what
  \<^verbatim>\<open>Date.now()\<close> returned, an argument of every action in the model.
\<close>

record Command =
  c_type :: CommandType
  c_payload :: "mutation option"
  c_timestamp :: nat

datatype Tab = Tab_routes | Tab_schemas | Tab_settings

record EditorState =
  document :: ApiDocument
  documentVersion :: nat
  selectedSchemaId :: "NodeId option"
  selectedRouteId :: "NodeId option"
  history :: "ApiDocument list"
  historyIndex :: int
  maxHistorySize :: nat
  commandLog :: "Command list"
  activeTab :: Tab
  yamlPreviewOpen :: bool

subsection \<open>Array helpers\<close>

text \<open>\<^verbatim>\<open>xs[i]\<close>: \<^verbatim>\<open>undefined\<close> (here \<open>None\<close>) outside the array.\<close>

definition at_index :: "'a list \<Rightarrow> int \<Rightarrow> 'a option" where
  "at_index xs i = (if 0 \<le> i \<and> i < int (length xs) then Some (xs ! nat i) else None)"

text \<open>\<^verbatim>\<open>xs.slice(0, e)\<close>: a negative end counts from the end of the array.\<close>

definition slice0 :: "'a list \<Rightarrow> int \<Rightarrow> 'a list" where
  "slice0 xs e = (if e < 0 then take (nat (int (length xs) + e)) xs else take (nat e) xs)"

text \<open>\<^verbatim>\<open>xs.indexOf(x)\<close>, with \<open>None\<close> for \<^verbatim>\<open>-1\<close>.\<close>

fun indexOf :: "'a list \<Rightarrow> 'a \<Rightarrow> nat option" where
  "indexOf [] x = None"
| "indexOf (y # ys) x = (if y = x then Some 0 else map_option Suc (indexOf ys x))"

text \<open>\<^verbatim>\<open>xs.splice(i, 1)\<close> for \<^verbatim>\<open>i \<ge> 0\<close>: nothing is removed past the end.\<close>

definition splice1 :: "'a list \<Rightarrow> nat \<Rightarrow> 'a list" where
  "splice1 xs i = take i xs @ drop (Suc i) xs"

text \<open>\<^verbatim>\<open>xs[i] = v\<close>: in place inside the array, else the array grows with empty slots.\<close>

definition assign_slot :: "'a slot list \<Rightarrow> nat \<Rightarrow> 'a \<Rightarrow> 'a slot list" where
  "assign_slot xs i v =
     (if i < length xs then xs[i := Elem v]
      else xs @ replicate (i - length xs) Hole @ [Elem v])"

text \<open>\<^verbatim>\<open>[...xs]\<close> on an array that may have empty slots.\<close>

fun read_slot :: "'a slot \<Rightarrow> 'a slot" where
  "read_slot Hole = Undef"
| "read_slot s = s"

subsection \<open>cloneDocument\<close>

text \<open>
  The copy is one level deep: every \<^verbatim>\<open>Map\<close> and array of the document, of each route
  and of each schema is rebuilt with the same members.
\<close>

definition cloneRoute :: "Route \<Rightarrow> Route" where
  "cloneRoute v = v\<lparr> r_parameters := r_parameters v, r_responses := r_responses v,
                     r_tags := r_tags v \<rparr>"

fun cloneSchema :: "SchemaNode \<Rightarrow> SchemaNode" where
  "cloneSchema (SchemaNode i n t d props its vars enums req fmt ex df mn mx mnl mxl pat disc) =
     SchemaNode i n t d
       (case props of Some m \<Rightarrow> Some m | None \<Rightarrow> None)
       its
       (case vars of Some vs \<Rightarrow> Some vs | None \<Rightarrow> None)
       (case enums of Some es \<Rightarrow> Some es | None \<Rightarrow> None)
       (case req of Some rs \<Rightarrow> Some rs | None \<Rightarrow> None)
       fmt ex df mn mx mnl mxl pat disc"

definition cloneDocument :: "ApiDocument \<Rightarrow> ApiDocument" where
  "cloneDocument doc =
     doc\<lparr> routes := map (\<lambda>(k, v). (k, cloneRoute v)) (routes doc),
          schemas := map (\<lambda>(k, v). (k, cloneSchema v)) (schemas doc),
          securitySchemes := securitySchemes doc,
          servers := map read_slot (servers doc),
          tags := tags doc \<rparr>"

subsection \<open>Constructors of types.ts\<close>

text \<open>
  \<^verbatim>\<open>generateId\<close> returns \<^verbatim>\<open>crypto.randomUUID()\<close>. The model draws identifiers from a
  fixed sequence without repetition; the number of identifiers drawn so far is threaded
  through every function that generates one.
\<close>

definition uuid :: "nat \<Rightarrow> NodeId" where
  "uuid n = ''id-'' @ decimal n"

definition generateId :: "nat \<Rightarrow> NodeId \<times> nat" where
  "generateId n = (uuid n, Suc n)"

definition createEmptyDocument :: "nat \<Rightarrow> ApiDocument \<times> nat" where
  "createEmptyDocument n =
     (let (i, n1) = generateId n in
      (\<lparr> d_id = i,
         info = \<lparr> title = JStr ''New API'', version = JStr ''1.0.0'',
                  i_description = Some (JStr []), termsOfService = None,
                  contact = None, license = None \<rparr>,
         servers = [], routes = [], schemas = [], securitySchemes = [], tags = [] \<rparr>, n1))"

definition bareSchema :: "NodeId \<Rightarrow> SchemaType \<Rightarrow> string option \<Rightarrow> SchemaNode" where
  "bareSchema i t n = SchemaNode i n t None None None None None None None None None None None
                        None None None None"

definition createSchema :: "SchemaType \<Rightarrow> string option \<Rightarrow> nat \<Rightarrow> SchemaNode \<times> nat" where
  "createSchema t nm n =
     (let (i, n1) = generateId n in
      case bareSchema i t nm of
        SchemaNode a b c d props its vars enums req fmt ex df mn mx mnl mxl pat disc \<Rightarrow>
          if t = T_object then
            (SchemaNode a b c d (Some []) its vars enums (Some []) fmt ex df mn mx mnl mxl pat disc, n1)
          else if t = T_array then
            (let (j, n2) = generateId n1 in
             (SchemaNode a b c d props (Some (InlineSchema (bareSchema j T_string None))) vars enums
                req fmt ex df mn mx mnl mxl pat disc, n2))
          else if t = T_enum then
            (SchemaNode a b c d props its vars (Some []) req fmt ex df mn mx mnl mxl pat disc, n1)
          else if t = T_oneOf \<or> t = T_anyOf \<or> t = T_allOf then
            (SchemaNode a b c d props its (Some []) enums req fmt ex df mn mx mnl mxl pat disc, n1)
          else (bareSchema i t nm, n1))"

definition createRoute :: "string \<Rightarrow> string \<Rightarrow> nat \<Rightarrow> Route \<times> nat" where
  "createRoute path method n =
     (let (i, n1) = generateId n;
          (j, n2) = generateId n1
      in (\<lparr> r_id = i, r_path = path, r_method = method,
            r_summary = None, r_description = None, r_operationId = None,
            r_tags = [], r_parameters = [], r_requestBody = None,
            r_responses =
              [(''200'', \<lparr> resp_id = j, resp_description = JStr ''Successful response'',
                           resp_content = None, resp_headers = None \<rparr>)],
            r_security = None, r_deprecated = None \<rparr>, n2))"

subsection \<open>Mutating actions\<close>

text \<open>
  Every action reads the state (\<^verbatim>\<open>get()\<close>), builds the next document on a clone, and ends
  with one \<^verbatim>\<open>set\<close> call. \<open>newHistory\<close> is the expression each action but
  \<^verbatim>\<open>setDocument\<close> passes as \<^verbatim>\<open>history\<close>; \<open>commit\<close> is the \<^verbatim>\<open>set\<close> call those
  actions share (document, history, historyIndex, documentVersion, commandLog). An early
  \<^verbatim>\<open>return\<close> leaves the state as it is.
\<close>

definition newHistory :: "EditorState \<Rightarrow> ApiDocument list" where
  "newHistory state =
     slice0 (history state) (historyIndex state + 1) @ [cloneDocument (document state)]"

definition commit :: "ApiDocument \<Rightarrow> Command \<Rightarrow> EditorState \<Rightarrow> EditorState" where
  "commit newDoc cmd state =
     state\<lparr> document := newDoc,
            history := newHistory state,
            historyIndex := int (length (newHistory state)) - 1,
            documentVersion := documentVersion state + 1,
            commandLog := commandLog state @ [cmd] \<rparr>"

definition command :: "CommandType \<Rightarrow> mutation \<Rightarrow> nat \<Rightarrow> Command" where
  "command t m now = \<lparr> c_type = t, c_payload = Some m, c_timestamp = now \<rparr>"

definition setDocument :: "ApiDocument \<Rightarrow> nat \<Rightarrow> EditorState \<Rightarrow> EditorState" where
  "setDocument doc now state =
     (let h = newHistory state;
          h' = (if length h > maxHistorySize state then tl h else h)
      in state\<lparr> document := doc,
                history := h',
                historyIndex := int (length h') - 1,
                documentVersion := documentVersion state + 1,
                commandLog := commandLog state @
                  [\<lparr> c_type = IMPORT_DOCUMENT, c_payload = None, c_timestamp = now \<rparr>] \<rparr>)"

definition updateInfo :: "PartialInfo \<Rightarrow> nat \<Rightarrow> EditorState \<Rightarrow> EditorState" where
  "updateInfo i now state =
     (let newDoc = cloneDocument (document state);
          newDoc = newDoc\<lparr> info := mergeInfo (info newDoc) i \<rparr>
      in commit newDoc (command UPDATE_INFO (UpdateInfo i) now) state)"

definition addSchema :: "SchemaNode \<Rightarrow> nat \<Rightarrow> EditorState \<Rightarrow> EditorState" where
  "addSchema schema now state =
     (let newDoc = cloneDocument (document state);
          newDoc = newDoc\<lparr> schemas := AList.update (s_id schema) schema (schemas newDoc) \<rparr>
      in (commit newDoc (command ADD_SCHEMA (AddSchema schema) now) state)
           \<lparr> selectedSchemaId := Some (s_id schema) \<rparr>)"

definition updateSchema :: "NodeId \<Rightarrow> PartialSchema \<Rightarrow> nat \<Rightarrow> EditorState \<Rightarrow> EditorState" where
  "updateSchema i updates now state =
     (case map_of (schemas (document state)) i of
        None \<Rightarrow> state
      | Some schema \<Rightarrow>
          let newDoc = cloneDocument (document state);
              updatedSchema = mergeSchema schema updates;
              newDoc = newDoc\<lparr> schemas := AList.update i updatedSchema (schemas newDoc) \<rparr>
          in commit newDoc (command UPDATE_SCHEMA (UpdateSchema i updates) now) state)"

definition deleteSchema :: "NodeId \<Rightarrow> nat \<Rightarrow> EditorState \<Rightarrow> EditorState" where
  "deleteSchema i now state =
     (let newDoc = cloneDocument (document state);
          newDoc = newDoc\<lparr> schemas := AList.delete i (schemas newDoc) \<rparr>
      in (commit newDoc (command DELETE_SCHEMA (DeleteSchema i) now) state)
           \<lparr> selectedSchemaId :=
               (if selectedSchemaId state = Some i then None else selectedSchemaId state) \<rparr>)"

fun with_properties :: "(string \<times> PropertyDef) list option \<Rightarrow> SchemaNode \<Rightarrow> SchemaNode" where
  "with_properties v (SchemaNode i n t d props its vars enums req fmt ex df mn mx mnl mxl pat disc) =
     SchemaNode i n t d v its vars enums req fmt ex df mn mx mnl mxl pat disc"

fun with_items :: "SchemaOrRef option \<Rightarrow> SchemaNode \<Rightarrow> SchemaNode" where
  "with_items v (SchemaNode i n t d props its vars enums req fmt ex df mn mx mnl mxl pat disc) =
     SchemaNode i n t d props v vars enums req fmt ex df mn mx mnl mxl pat disc"

fun with_required :: "jsval list option \<Rightarrow> SchemaNode \<Rightarrow> SchemaNode" where
  "with_required v (SchemaNode i n t d props its vars enums req fmt ex df mn mx mnl mxl pat disc) =
     SchemaNode i n t d props its vars enums v fmt ex df mn mx mnl mxl pat disc"

text \<open>
  The schema an action edits is \<^verbatim>\<open>newDoc.schemas.get(schemaId)!\<close>: the clone's copy of the
  schema found under that key in the current document, that is \<open>cloneSchema schema\<close>.
  Where the source reads \<^verbatim>\<open>updatedSchema.properties!\<close> after having checked
  \<^verbatim>\<open>schema.properties\<close>, the model reads the checked value.
\<close>

text \<open>The edits \<^verbatim>\<open>addFieldToSchema\<close> makes on the schema copy.\<close>

definition addField_edit :: "PropertyDef \<Rightarrow> SchemaNode \<Rightarrow> SchemaNode" where
  "addField_edit fld updatedSchema =
     (let props = (case s_properties updatedSchema of None \<Rightarrow> [] | Some m \<Rightarrow> m);
          updatedSchema =
            with_properties (Some (AList.update (pd_name fld) fld props)) updatedSchema
      in if pd_required fld then
           (let req = (case s_required updatedSchema of None \<Rightarrow> [] | Some r \<Rightarrow> r);
                req = (if JStr (pd_name fld) \<in> set req then req
                       else req @ [JStr (pd_name fld)])
            in with_required (Some req) updatedSchema)
         else updatedSchema)"

definition addFieldToSchema :: "NodeId \<Rightarrow> PropertyDef \<Rightarrow> nat \<Rightarrow> EditorState \<Rightarrow> EditorState" where
  "addFieldToSchema schemaId fld now state =
     (case map_of (schemas (document state)) schemaId of
        None \<Rightarrow> state
      | Some schema \<Rightarrow>
          if s_type schema \<noteq> T_object then state
          else
            commit
              ((cloneDocument (document state))
                 \<lparr> schemas := AList.update schemaId (addField_edit fld (cloneSchema schema))
                                (schemas (cloneDocument (document state))) \<rparr>)
              (command ADD_FIELD (AddFieldToSchema schemaId fld) now) state)"

text \<open>
  The edits \<^verbatim>\<open>updateField\<close> makes on the schema copy: first the rename (or the write
  under the old name), then the change of the required list.
\<close>

definition updateField_rename ::
  "(string \<times> PropertyDef) list \<Rightarrow> PropertyDef \<Rightarrow> string \<Rightarrow> PartialProperty \<Rightarrow> SchemaNode
     \<Rightarrow> SchemaNode" where
  "updateField_rename props fld fieldName updates updatedSchema =
     (let updatedField = mergeProperty fld updates
      in case u_pd_name updates of
           None \<Rightarrow> with_properties (Some (AList.update fieldName updatedField props)) updatedSchema
         | Some nm \<Rightarrow>
             if nm \<noteq> [] \<and> nm \<noteq> fieldName then
               (let s1 = with_properties
                      (Some (AList.update nm updatedField (AList.delete fieldName props)))
                      updatedSchema
                in case s_required s1 of
                     None \<Rightarrow> s1
                   | Some req \<Rightarrow>
                      (case indexOf req (JStr fieldName) of
                         None \<Rightarrow> s1
                       | Some idx \<Rightarrow> with_required (Some (req[idx := JStr nm])) s1))
             else with_properties (Some (AList.update fieldName updatedField props)) updatedSchema)"

definition updateField_required :: "string \<Rightarrow> PartialProperty \<Rightarrow> SchemaNode \<Rightarrow> SchemaNode" where
  "updateField_required fieldName updates updatedSchema =
     (case u_pd_required updates of
        None \<Rightarrow> updatedSchema
      | Some r \<Rightarrow>
         (let req = (case s_required updatedSchema of None \<Rightarrow> [] | Some q \<Rightarrow> q);
              nm = (case u_pd_name updates of
                      None \<Rightarrow> fieldName
                    | Some x \<Rightarrow> if x \<noteq> [] then x else fieldName)
          in case indexOf req (JStr nm) of
               None \<Rightarrow>
                 if r then with_required (Some (req @ [JStr nm])) updatedSchema
                 else with_required (Some req) updatedSchema
             | Some idx \<Rightarrow>
                 if \<not> r then with_required (Some (splice1 req idx)) updatedSchema
                 else with_required (Some req) updatedSchema))"

definition updateField ::
  "NodeId \<Rightarrow> string \<Rightarrow> PartialProperty \<Rightarrow> nat \<Rightarrow> EditorState \<Rightarrow> EditorState" where
  "updateField schemaId fieldName updates now state =
     (case map_of (schemas (document state)) schemaId of
        None \<Rightarrow> state
      | Some schema \<Rightarrow>
         (case s_properties schema of
            None \<Rightarrow> state
          | Some schema_props \<Rightarrow>
             (case map_of schema_props fieldName of
                None \<Rightarrow> state
              | Some fld \<Rightarrow>
                  commit
                    ((cloneDocument (document state))
                       \<lparr> schemas := AList.update schemaId
                            (updateField_required fieldName updates
                               (updateField_rename schema_props fld fieldName updates
                                  (cloneSchema schema)))
                            (schemas (cloneDocument (document state))) \<rparr>)
                    (command UPDATE_FIELD (UpdateField schemaId fieldName updates) now) state)))"

text \<open>The edits \<^verbatim>\<open>deleteField\<close> makes on the schema copy.\<close>

definition deleteField_edit ::
  "(string \<times> PropertyDef) list \<Rightarrow> string \<Rightarrow> SchemaNode \<Rightarrow> SchemaNode" where
  "deleteField_edit props fieldName updatedSchema =
     (let updatedSchema = with_properties (Some (AList.delete fieldName props)) updatedSchema
      in case s_required updatedSchema of
           None \<Rightarrow> updatedSchema
         | Some req \<Rightarrow>
            (case indexOf req (JStr fieldName) of
               None \<Rightarrow> updatedSchema
             | Some idx \<Rightarrow> with_required (Some (splice1 req idx)) updatedSchema))"

definition deleteField :: "NodeId \<Rightarrow> string \<Rightarrow> nat \<Rightarrow> EditorState \<Rightarrow> EditorState" where
  "deleteField schemaId fieldName now state =
     (case map_of (schemas (document state)) schemaId of
        None \<Rightarrow> state
      | Some schema \<Rightarrow>
         (case s_properties schema of
            None \<Rightarrow> state
          | Some schema_props \<Rightarrow>
              commit
                ((cloneDocument (document state))
                   \<lparr> schemas := AList.update schemaId
                        (deleteField_edit schema_props fieldName (cloneSchema schema))
                        (schemas (cloneDocument (document state))) \<rparr>)
                (command DELETE_FIELD (DeleteField schemaId fieldName) now) state))"

text \<open>
  A route action edits \<^verbatim>\<open>newDoc.routes.get(routeId)!\<close>, the clone's copy of the route found
  under that key: \<open>cloneRoute route\<close>.
\<close>

definition addRoute :: "Route \<Rightarrow> nat \<Rightarrow> EditorState \<Rightarrow> EditorState" where
  "addRoute route now state =
     (let newDoc = cloneDocument (document state);
          newDoc = newDoc\<lparr> routes := AList.update (r_id route) route (routes newDoc) \<rparr>
      in (commit newDoc (command ADD_ROUTE (AddRoute route) now) state)
           \<lparr> selectedRouteId := Some (r_id route) \<rparr>)"

definition updateRoute :: "NodeId \<Rightarrow> PartialRoute \<Rightarrow> nat \<Rightarrow> EditorState \<Rightarrow> EditorState" where
  "updateRoute i updates now state =
     (case map_of (routes (document state)) i of
        None \<Rightarrow> state
      | Some route \<Rightarrow>
          let newDoc = cloneDocument (document state);
              newDoc = newDoc\<lparr> routes := AList.update i (mergeRoute route updates) (routes newDoc) \<rparr>
          in commit newDoc (command UPDATE_ROUTE (UpdateRoute i updates) now) state)"

definition deleteRoute :: "NodeId \<Rightarrow> nat \<Rightarrow> EditorState \<Rightarrow> EditorState" where
  "deleteRoute i now state =
     (let newDoc = cloneDocument (document state);
          newDoc = newDoc\<lparr> routes := AList.delete i (routes newDoc) \<rparr>
      in (commit newDoc (command DELETE_ROUTE (DeleteRoute i) now) state)
           \<lparr> selectedRouteId :=
               (if selectedRouteId state = Some i then None else selectedRouteId state) \<rparr>)"

definition addParameter :: "NodeId \<Rightarrow> ParameterDef \<Rightarrow> nat \<Rightarrow> EditorState \<Rightarrow> EditorState" where
  "addParameter routeId param now state =
     (case map_of (routes (document state)) routeId of
        None \<Rightarrow> state
      | Some route \<Rightarrow>
          let newDoc = cloneDocument (document state);
              updatedRoute = cloneRoute route;
              updatedRoute = updatedRoute\<lparr> r_parameters := r_parameters updatedRoute @ [param] \<rparr>;
              newDoc = newDoc\<lparr> routes := AList.update routeId updatedRoute (routes newDoc) \<rparr>
          in commit newDoc (command ADD_PARAMETER (AddParameter routeId param) now) state)"

definition updateParameter ::
  "NodeId \<Rightarrow> NodeId \<Rightarrow> PartialParameter \<Rightarrow> nat \<Rightarrow> EditorState \<Rightarrow> EditorState" where
  "updateParameter routeId paramId updates now state =
     (case map_of (routes (document state)) routeId of
        None \<Rightarrow> state
      | Some route \<Rightarrow>
          let newDoc = cloneDocument (document state);
              updatedRoute = cloneRoute route;
              updatedRoute = updatedRoute\<lparr> r_parameters :=
                 map (\<lambda>p. if p_id p = paramId then mergeParameter p updates else p)
                     (r_parameters updatedRoute) \<rparr>;
              newDoc = newDoc\<lparr> routes := AList.update routeId updatedRoute (routes newDoc) \<rparr>
          in commit newDoc
               (command UPDATE_PARAMETER (UpdateParameter routeId paramId updates) now) state)"

definition deleteParameter :: "NodeId \<Rightarrow> NodeId \<Rightarrow> nat \<Rightarrow> EditorState \<Rightarrow> EditorState" where
  "deleteParameter routeId paramId now state =
     (case map_of (routes (document state)) routeId of
        None \<Rightarrow> state
      | Some route \<Rightarrow>
          let newDoc = cloneDocument (document state);
              updatedRoute = cloneRoute route;
              updatedRoute = updatedRoute\<lparr> r_parameters :=
                 filter (\<lambda>p. p_id p \<noteq> paramId) (r_parameters updatedRoute) \<rparr>;
              newDoc = newDoc\<lparr> routes := AList.update routeId updatedRoute (routes newDoc) \<rparr>
          in commit newDoc (command DELETE_PARAMETER (DeleteParameter routeId paramId) now) state)"

definition setRequestBody :: "NodeId \<Rightarrow> RequestBody option \<Rightarrow> nat \<Rightarrow> EditorState \<Rightarrow> EditorState" where
  "setRequestBody routeId body now state =
     (case map_of (routes (document state)) routeId of
        None \<Rightarrow> state
      | Some route \<Rightarrow>
          let newDoc = cloneDocument (document state);
              updatedRoute = cloneRoute route;
              updatedRoute = updatedRoute\<lparr> r_requestBody := body \<rparr>;
              newDoc = newDoc\<lparr> routes := AList.update routeId updatedRoute (routes newDoc) \<rparr>
          in commit newDoc (command SET_REQUEST_BODY (SetRequestBody routeId body) now) state)"

definition addResponse :: "NodeId \<Rightarrow> string \<Rightarrow> ResponseDef \<Rightarrow> nat \<Rightarrow> EditorState \<Rightarrow> EditorState" where
  "addResponse routeId statusCode response now state =
     (case map_of (routes (document state)) routeId of
        None \<Rightarrow> state
      | Some route \<Rightarrow>
          let newDoc = cloneDocument (document state);
              updatedRoute = cloneRoute route;
              updatedRoute = updatedRoute\<lparr> r_responses :=
                 AList.update statusCode response (r_responses updatedRoute) \<rparr>;
              newDoc = newDoc\<lparr> routes := AList.update routeId updatedRoute (routes newDoc) \<rparr>
          in commit newDoc
               (command ADD_RESPONSE (AddResponse routeId statusCode response) now) state)"

definition updateResponse ::
  "NodeId \<Rightarrow> string \<Rightarrow> PartialResponse \<Rightarrow> nat \<Rightarrow> EditorState \<Rightarrow> EditorState" where
  "updateResponse routeId statusCode updates now state =
     (case map_of (routes (document state)) routeId of
        None \<Rightarrow> state
      | Some route \<Rightarrow>
         (case map_of (r_responses route) statusCode of
            None \<Rightarrow> state
          | Some response \<Rightarrow>
              let newDoc = cloneDocument (document state);
                  updatedRoute = cloneRoute route;
                  updatedRoute = updatedRoute\<lparr> r_responses :=
                     AList.update statusCode (mergeResponse response updates)
                       (r_responses updatedRoute) \<rparr>;
                  newDoc = newDoc\<lparr> routes := AList.update routeId updatedRoute (routes newDoc) \<rparr>
              in commit newDoc
                   (command UPDATE_RESPONSE (UpdateResponse routeId statusCode updates) now) state))"

definition deleteResponse :: "NodeId \<Rightarrow> string \<Rightarrow> nat \<Rightarrow> EditorState \<Rightarrow> EditorState" where
  "deleteResponse routeId statusCode now state =
     (case map_of (routes (document state)) routeId of
        None \<Rightarrow> state
      | Some route \<Rightarrow>
          let newDoc = cloneDocument (document state);
              updatedRoute = cloneRoute route;
              updatedRoute = updatedRoute\<lparr> r_responses :=
                 AList.delete statusCode (r_responses updatedRoute) \<rparr>;
              newDoc = newDoc\<lparr> routes := AList.update routeId updatedRoute (routes newDoc) \<rparr>
          in commit newDoc
               (command DELETE_RESPONSE (DeleteResponse routeId statusCode) now) state)"

definition addServer :: "Server \<Rightarrow> nat \<Rightarrow> EditorState \<Rightarrow> EditorState" where
  "addServer server now state =
     (let newDoc = cloneDocument (document state);
          newDoc = newDoc\<lparr> servers := servers newDoc @ [Elem server] \<rparr>
      in commit newDoc (command ADD_SERVER (AddServer server) now) state)"

definition updateServer :: "nat \<Rightarrow> Server \<Rightarrow> nat \<Rightarrow> EditorState \<Rightarrow> EditorState" where
  "updateServer index server now state =
     (let newDoc = cloneDocument (document state);
          newDoc = newDoc\<lparr> servers := assign_slot (servers newDoc) index server \<rparr>
      in commit newDoc (command UPDATE_SERVER (UpdateServer index server) now) state)"

definition deleteServer :: "nat \<Rightarrow> nat \<Rightarrow> EditorState \<Rightarrow> EditorState" where
  "deleteServer index now state =
     (let newDoc = cloneDocument (document state);
          newDoc = newDoc\<lparr> servers := splice1 (servers newDoc) index \<rparr>
      in commit newDoc (command DELETE_SERVER (DeleteServer index) now) state)"

definition addSecurityScheme :: "SecurityScheme \<Rightarrow> nat \<Rightarrow> EditorState \<Rightarrow> EditorState" where
  "addSecurityScheme scheme now state =
     (let newDoc = cloneDocument (document state);
          newDoc = newDoc\<lparr> securitySchemes :=
                     AList.update (ss_id scheme) scheme (securitySchemes newDoc) \<rparr>
      in commit newDoc (command ADD_SECURITY_SCHEME (AddSecurityScheme scheme) now) state)"

definition updateSecurityScheme ::
  "NodeId \<Rightarrow> PartialSecurityScheme \<Rightarrow> nat \<Rightarrow> EditorState \<Rightarrow> EditorState" where
  "updateSecurityScheme i updates now state =
     (case map_of (securitySchemes (document state)) i of
        None \<Rightarrow> state
      | Some scheme \<Rightarrow>
          let newDoc = cloneDocument (document state);
              newDoc = newDoc\<lparr> securitySchemes :=
                         AList.update i (mergeSecurityScheme scheme updates)
                           (securitySchemes newDoc) \<rparr>
          in commit newDoc
               (command UPDATE_SECURITY_SCHEME (UpdateSecurityScheme i updates) now) state)"

definition deleteSecurityScheme :: "NodeId \<Rightarrow> nat \<Rightarrow> EditorState \<Rightarrow> EditorState" where
  "deleteSecurityScheme i now state =
     (let newDoc = cloneDocument (document state);
          newDoc = newDoc\<lparr> securitySchemes := AList.delete i (securitySchemes newDoc) \<rparr>
      in commit newDoc (command DELETE_SECURITY_SCHEME (DeleteSecurityScheme i) now) state)"

text \<open>
  \<^verbatim>\<open>t.name === tag.name\<close> compares two stored values; on strings, numbers, booleans and
  \<^verbatim>\<open>null\<close> strict equality is equality of values, which is what \<open>=\<close> is here.
\<close>

definition addTag :: "Tag \<Rightarrow> nat \<Rightarrow> EditorState \<Rightarrow> EditorState" where
  "addTag tag now state =
     (let newDoc = cloneDocument (document state);
          newDoc = (if \<not> list_ex (\<lambda>t. tag_name t = tag_name tag) (tags newDoc)
                    then newDoc\<lparr> tags := tags newDoc @ [tag] \<rparr> else newDoc)
      in commit newDoc (command ADD_TAG (AddTag tag) now) state)"

definition deleteTag :: "string \<Rightarrow> nat \<Rightarrow> EditorState \<Rightarrow> EditorState" where
  "deleteTag name now state =
     (let newDoc = cloneDocument (document state);
          newDoc = newDoc\<lparr> tags := filter (\<lambda>t. tag_name t \<noteq> JStr name) (tags newDoc) \<rparr>
      in commit newDoc (command DELETE_TAG (DeleteTag name) now) state)"

subsection \<open>History actions\<close>

text \<open>
  \<^verbatim>\<open>undo\<close> writes \<^verbatim>\<open>history[historyIndex]\<close> into \<^verbatim>\<open>document\<close> without looking at it.
  Outside the array that value is \<^verbatim>\<open>undefined\<close>, and the state is no longer an
  \<open>EditorState\<close>: the result \<open>None\<close>. \<^verbatim>\<open>redo\<close> tests what it read before the write.
\<close>

definition undo :: "EditorState \<Rightarrow> EditorState option" where
  "undo state =
     (if historyIndex state < 0 then Some state
      else case at_index (history state) (historyIndex state) of
             None \<Rightarrow> None
           | Some previousDoc \<Rightarrow>
               Some (state\<lparr> document := previousDoc,
                            historyIndex := historyIndex state - 1,
                            documentVersion := documentVersion state + 1 \<rparr>))"

definition redo :: "EditorState \<Rightarrow> EditorState" where
  "redo state =
     (if historyIndex state \<ge> int (length (history state)) - 1 then state
      else case at_index (history state) (historyIndex state + 2) of
             None \<Rightarrow> state
           | Some nextDoc \<Rightarrow>
               state\<lparr> document := nextDoc,
                      historyIndex := historyIndex state + 1,
                      documentVersion := documentVersion state + 1 \<rparr>)"

definition canUndo :: "EditorState \<Rightarrow> bool" where
  "canUndo state = (historyIndex state \<ge> 0)"

definition canRedo :: "EditorState \<Rightarrow> bool" where
  "canRedo state = (historyIndex state < int (length (history state)) - 1)"

definition initializeDocument :: "ApiDocument \<Rightarrow> EditorState \<Rightarrow> EditorState" where
  "initializeDocument doc state =
     state\<lparr> document := doc, history := [], historyIndex := - 1, documentVersion := 0,
            selectedSchemaId := None, selectedRouteId := None, commandLog := [] \<rparr>"

text \<open>The state the store is created with.\<close>

definition initialState :: "nat \<Rightarrow> EditorState" where
  "initialState n =
     \<lparr> document = fst (createEmptyDocument n), documentVersion = 0,
       selectedSchemaId = None, selectedRouteId = None,
       history = [], historyIndex = - 1, maxHistorySize = 50, commandLog = [],
       activeTab = Tab_routes, yamlPreviewOpen = False \<rparr>"

subsection \<open>Running mutations\<close>

fun mutate :: "mutation \<Rightarrow> nat \<Rightarrow> EditorState \<Rightarrow> EditorState" where
  "mutate (SetDocument doc) = setDocument doc"
| "mutate (UpdateInfo i) = updateInfo i"
| "mutate (AddSchema s) = addSchema s"
| "mutate (UpdateSchema i u) = updateSchema i u"
| "mutate (DeleteSchema i) = deleteSchema i"
| "mutate (AddFieldToSchema i f) = addFieldToSchema i f"
| "mutate (UpdateField i n u) = updateField i n u"
| "mutate (DeleteField i n) = deleteField i n"
| "mutate (AddRoute r) = addRoute r"
| "mutate (UpdateRoute i u) = updateRoute i u"
| "mutate (DeleteRoute i) = deleteRoute i"
| "mutate (AddParameter i p) = addParameter i p"
| "mutate (UpdateParameter i j u) = updateParameter i j u"
| "mutate (DeleteParameter i j) = deleteParameter i j"
| "mutate (SetRequestBody i b) = setRequestBody i b"
| "mutate (AddResponse i c r) = addResponse i c r"
| "mutate (UpdateResponse i c u) = updateResponse i c u"
| "mutate (DeleteResponse i c) = deleteResponse i c"
| "mutate (AddServer s) = addServer s"
| "mutate (UpdateServer k s) = updateServer k s"
| "mutate (DeleteServer k) = deleteServer k"
| "mutate (AddSecurityScheme s) = addSecurityScheme s"
| "mutate (UpdateSecurityScheme i u) = updateSecurityScheme i u"
| "mutate (DeleteSecurityScheme i) = deleteSecurityScheme i"
| "mutate (AddTag t) = addTag t"
| "mutate (DeleteTag n) = deleteTag n"

text \<open>A sequence of mutations, each with the time it was made at, applied left to right.\<close>

fun mutations :: "(mutation \<times> nat) list \<Rightarrow> EditorState \<Rightarrow> EditorState" where
  "mutations [] state = state"
| "mutations ((m, now) # ms) state = mutations ms (mutate m now state)"

text \<open>\<open>n\<close> calls of \<^verbatim>\<open>undo\<close>, and of \<^verbatim>\<open>redo\<close>.\<close>

fun undos :: "nat \<Rightarrow> EditorState \<Rightarrow> EditorState option" where
  "undos 0 state = Some state"
| "undos (Suc n) state = (case undo state of None \<Rightarrow> None | Some s \<Rightarrow> undos n s)"

fun redos :: "nat \<Rightarrow> EditorState \<Rightarrow> EditorState" where
  "redos 0 state = state"
| "redos (Suc n) state = redos n (redo state)"

subsection \<open>Notions used to state the history properties\<close>

text \<open>
  Two documents are structurally equal when they have the same members; an empty slot of
  the server list and a slot holding \<^verbatim>\<open>undefined\<close> read the same, which is what the
  snapshot copy makes of them.
\<close>

definition structurallyEqual :: "ApiDocument \<Rightarrow> ApiDocument \<Rightarrow> bool" where
  "structurallyEqual a b = (cloneDocument a = cloneDocument b)"

text \<open>The cursor is on the last entry of the history (or the history is empty).\<close>

definition at_top :: "EditorState \<Rightarrow> bool" where
  "at_top s = (historyIndex s = int (length (history s)) - 1)"

text \<open>
  \<open>pushed s s'\<close>: the step from \<open>s\<close> to \<open>s'\<close> recorded one snapshot, with or without
  the eviction of the oldest entry.
\<close>

definition pushed :: "EditorState \<Rightarrow> EditorState \<Rightarrow> bool" where
  "pushed s s' =
     (maxHistorySize s' = maxHistorySize s \<and> at_top s' \<and>
      (history s' = newHistory s \<or>
       (length (newHistory s) > maxHistorySize s \<and> history s' = tl (newHistory s))))"

text \<open>
  \<open>since s0 k s\<close>: \<open>s\<close> is \<open>s0\<close> itself, or a state whose history starts with the
  snapshot of \<open>s0\<close>'s document and has at most \<open>k\<close> entries.
\<close>

definition since :: "EditorState \<Rightarrow> nat \<Rightarrow> EditorState \<Rightarrow> bool" where
  "since s0 k s =
     (s = s0 \<or>
      (at_top s \<and> history s \<noteq> [] \<and> hd (history s) = cloneDocument (document s0) \<and>
       length (history s) \<le> k \<and> maxHistorySize s = maxHistorySize s0))"

text \<open>
  The undo half of the inverse law for a run \<open>ms\<close> from \<open>s0\<close>: as many \<^verbatim>\<open>undo\<close> calls as
  there were mutations bring back \<open>s0\<close>'s document. The whole law adds the redo half: as
  many \<^verbatim>\<open>redo\<close> calls after that bring back the document the run had produced.
\<close>

definition undoLaw :: "EditorState \<Rightarrow> (mutation \<times> nat) list \<Rightarrow> bool" where
  "undoLaw s0 ms =
     (case undos (length ms) (mutations ms s0) of
        None \<Rightarrow> False
      | Some s1 \<Rightarrow> structurallyEqual (document s1) (document s0))"

definition undoRedoLaw :: "EditorState \<Rightarrow> (mutation \<times> nat) list \<Rightarrow> bool" where
  "undoRedoLaw s0 ms =
     (case undos (length ms) (mutations ms s0) of
        None \<Rightarrow> False
      | Some s1 \<Rightarrow>
          structurallyEqual (document s1) (document s0) \<and>
          structurallyEqual (document (redos (length ms) s1)) (document (mutations ms s0)))"

text \<open>Concrete inputs: a change of the title, and a document to import.\<close>

definition titlePatch :: "string \<Rightarrow> PartialInfo" where
  "titlePatch t =
     \<lparr> u_title = Some (JStr t), u_version = None, u_i_description = None,
       u_termsOfService = None, u_contact = None, u_license = None \<rparr>"

definition importedDoc :: ApiDocument where
  "importedDoc =
     \<lparr> d_id = ''imported'',
       info = \<lparr> title = JStr ''Imported'', version = JStr ''2.0.0'', i_description = None,
                termsOfService = None, contact = None, license = None \<rparr>,
       servers = [], routes = [], schemas = [], securitySchemes = [], tags = [] \<rparr>"

section \<open>Usage count and reachability\<close>

text \<open>\<^verbatim>\<open>e.kind === 'ref' && e.targetId === id\<close>.\<close>

definition isRefTo :: "NodeId \<Rightarrow> SchemaOrRef \<Rightarrow> bool" where
  "isRefTo i e = (case e of SchemaRef t \<Rightarrow> t = i | InlineSchema s \<Rightarrow> False)"

definition countRefs :: "NodeId \<Rightarrow> SchemaOrRef list \<Rightarrow> nat" where
  "countRefs i es = length (filter (isRefTo i) es)"

text \<open>
  \<^verbatim>\<open>getSchemaUsageCount\<close> of store.ts: the counter is incremented once for every tested
  edge that passes the test. The schemas skipped are those whose own \<^verbatim>\<open>id\<close> field is
  the identifier asked for.
\<close>

definition getSchemaUsageCount :: "NodeId \<Rightarrow> EditorState \<Rightarrow> nat" where
  "getSchemaUsageCount i state =
     sum_list (map (\<lambda>(k, route).
         countRefs i (map p_schema (r_parameters route))
       + (case r_requestBody route of
            None \<Rightarrow> 0
          | Some body \<Rightarrow> countRefs i (map (\<lambda>(ct, media). mt_schema media) (rb_content body)))
       + sum_list (map (\<lambda>(code, response).
             case resp_content response of
               None \<Rightarrow> 0
             | Some c \<Rightarrow> countRefs i (map (\<lambda>(ct, media). mt_schema media) c))
           (r_responses route)))
       (routes (document state)))
   + sum_list (map (\<lambda>(k, schema).
         if s_id schema = i then 0
         else (case s_properties schema of
                 None \<Rightarrow> 0
               | Some ps \<Rightarrow> countRefs i (map (\<lambda>(n, p). pd_schema p) ps))
            + (case s_items schema of
                 None \<Rightarrow> 0
               | Some e \<Rightarrow> if isRefTo i e then 1 else 0)
            + (case s_variants schema of
                 None \<Rightarrow> 0
               | Some vs \<Rightarrow> countRefs i vs))
       (schemas (document state)))"

text \<open>
  The orphan check of \<^verbatim>\<open>validateReferences\<close>. \<^verbatim>\<open>markUsed\<close> and \<^verbatim>\<open>markUsedInSchema\<close>
  add identifiers to the set \<^verbatim>\<open>usedSchemaIds\<close>; the model returns the identifiers added,
  in the order of the calls.
\<close>

fun markUsed :: "SchemaOrRef \<Rightarrow> NodeId list"
and markUsedInSchema :: "SchemaNode \<Rightarrow> NodeId list"
and markUsedInProperty :: "PropertyDef \<Rightarrow> NodeId list" where
  "markUsed (SchemaRef t) = [t]"
| "markUsed (InlineSchema s) = markUsedInSchema s"
| "markUsedInSchema (SchemaNode i n t d props its vars enums req fmt ex df mn mx mnl mxl pat disc) =
     (case props of None \<Rightarrow> [] | Some ps \<Rightarrow> concat (map (\<lambda>(k, p). markUsedInProperty p) ps))
   @ (case its of None \<Rightarrow> [] | Some e \<Rightarrow> markUsed e)
   @ (case vars of None \<Rightarrow> [] | Some vs \<Rightarrow> concat (map markUsed vs))"
| "markUsedInProperty (PropertyDef n s r d) = markUsed s"

definition usedSchemaIds :: "ApiDocument \<Rightarrow> NodeId list" where
  "usedSchemaIds doc =
     concat (map (\<lambda>(k, route).
         concat (map (\<lambda>param. markUsed (p_schema param)) (r_parameters route))
       @ (case r_requestBody route of
            None \<Rightarrow> []
          | Some body \<Rightarrow> concat (map (\<lambda>(ct, media). markUsed (mt_schema media)) (rb_content body)))
       @ concat (map (\<lambda>(code, response).
             case resp_content response of
               None \<Rightarrow> []
             | Some c \<Rightarrow> concat (map (\<lambda>(ct, media). markUsed (mt_schema media)) c))
           (r_responses route)))
       (routes doc))
   @ concat (map (\<lambda>(k, schema). markUsedInSchema schema) (schemas doc))"

text \<open>The identifiers for which an \<^verbatim>\<open>ORPHANED_SCHEMA\<close> advisory is pushed.\<close>

definition orphanedSchemas :: "ApiDocument \<Rightarrow> NodeId list" where
  "orphanedSchemas doc = filter (\<lambda>i. i \<notin> set (usedSchemaIds doc)) (map fst (schemas doc))"

text \<open>
  The positions the usage count looks at, in the words of its description: the edges of
  route parameters, of request-body media types, of response media types, and the
  property, item and variant edges of the top-level schemas other than the one asked for.
\<close>

definition routeEdges :: "Route \<Rightarrow> SchemaOrRef list" where
  "routeEdges route =
     map p_schema (r_parameters route)
   @ (case r_requestBody route of None \<Rightarrow> [] | Some body \<Rightarrow> map (mt_schema \<circ> snd) (rb_content body))
   @ concat (map (\<lambda>response. case resp_content response of
                                 None \<Rightarrow> [] | Some c \<Rightarrow> map (mt_schema \<circ> snd) c)
               (map snd (r_responses route)))"

definition schemaEdges :: "SchemaNode \<Rightarrow> SchemaOrRef list" where
  "schemaEdges schema =
     (case s_properties schema of None \<Rightarrow> [] | Some ps \<Rightarrow> map (pd_schema \<circ> snd) ps)
   @ (case s_items schema of None \<Rightarrow> [] | Some e \<Rightarrow> [e])
   @ (case s_variants schema of None \<Rightarrow> [] | Some vs \<Rightarrow> vs)"

definition directEdges :: "NodeId \<Rightarrow> ApiDocument \<Rightarrow> SchemaOrRef list" where
  "directEdges i doc =
     concat (map (routeEdges \<circ> snd) (routes doc))
   @ concat (map schemaEdges (filter (\<lambda>schema. s_id schema \<noteq> i) (map snd (schemas doc))))"

text \<open>
  Two documents for the usage count. In the first the schema \<open>pet\<close> is referenced only
  from inside the inline array schema of a route parameter. In the second the schema
  \<open>node\<close> is referenced only by one of its own properties.
\<close>

definition stateOf :: "ApiDocument \<Rightarrow> EditorState" where
  "stateOf doc = initializeDocument doc (initialState 0)"

definition nestedRefDoc :: ApiDocument where
  "nestedRefDoc =
     importedDoc
       \<lparr> schemas := [(''pet'', bareSchema ''pet'' T_string (Some ''Pet''))],
         routes := [(''r1'',
           \<lparr> r_id = ''r1'', r_path = ''/pets'', r_method = ''get'',
             r_summary = None, r_description = None, r_operationId = None, r_tags = [],
             r_parameters =
               [\<lparr> p_id = ''p1'', p_name = JStr ''filter'', p_in = JStr ''query'',
                   p_required = JBool False,
                   p_schema = InlineSchema
                     (with_items (Some (SchemaRef ''pet'')) (bareSchema ''a1'' T_array None)),
                   p_description = None, p_example = None \<rparr>],
             r_requestBody = None,
             r_responses = [(''200'', \<lparr> resp_id = ''x1'', resp_description = JStr ''ok'',
                                       resp_content = None, resp_headers = None \<rparr>)],
             r_security = None, r_deprecated = None \<rparr>)] \<rparr>"

definition selfRefDoc :: ApiDocument where
  "selfRefDoc =
     importedDoc
       \<lparr> schemas := [(''node'',
           with_properties
             (Some [(''next'', PropertyDef ''next'' (SchemaRef ''node'') False None)])
             (bareSchema ''node'' T_object (Some ''Node'')))] \<rparr>"

section \<open>Outcomes\<close>

text \<open>
  How a call of the importer or of the exporter can end without a result. \<open>TypeError\<close>
  and \<open>RangeError\<close> are the JavaScript exceptions (a property read on \<^verbatim>\<open>null\<close> or
  \<^verbatim>\<open>undefined\<close>, a call of something that is not a function; recursion deeper than the
  call stack). \<open>Outside\<close> is not an exception: the run has reached a value this model
  has no place for (an array-typed field about to receive, by an unchecked cast, a value
  that is not an array; a server list with an empty slot handed to the YAML writer), and
  the model says nothing about how the source goes on from there.
\<close>

datatype stop = TypeError | RangeError | Outside

text \<open>Results of a sequence of calls, up to the first that stops.\<close>

fun collect :: "(stop + 'a) list \<Rightarrow> stop + 'a list" where
  "collect [] = Inr []"
| "collect (x # xs) =
     (case x of
        Inl e \<Rightarrow> Inl e
      | Inr v \<Rightarrow> (case collect xs of Inl e \<Rightarrow> Inl e | Inr vs \<Rightarrow> Inr (v # vs)))"

section \<open>The exporter (serializer.ts)\<close>

subsection \<open>Building objects\<close>

text \<open>
  The own keys of a JavaScript object are enumerated with the array indices first, in
  ascending order, and the other keys after them in the order of their creation. An array
  index is the decimal form of a number below \<open>2\<^sup>3\<^sup>2 - 1\<close>.
\<close>

definition is_digit :: "char \<Rightarrow> bool" where
  "is_digit c = ((48::nat) \<le> of_char c \<and> (of_char c :: nat) \<le> 57)"

definition digits_value :: "string \<Rightarrow> nat" where
  "digits_value s = foldl (\<lambda>acc c. 10 * acc + ((of_char c :: nat) - 48)) 0 s"

definition array_index :: "string \<Rightarrow> nat option" where
  "array_index k =
     (if k \<noteq> [] \<and> list_all is_digit k \<and> (k = ''0'' \<or> hd k \<noteq> CHR ''0'')
         \<and> digits_value k < 4294967295
      then Some (digits_value k) else None)"

text \<open>Insertion of a new array-index key among the leading array-index keys.\<close>

fun insert_index :: "nat \<Rightarrow> string \<Rightarrow> jsval \<Rightarrow> (string \<times> jsval) list \<Rightarrow> (string \<times> jsval) list" where
  "insert_index n k v [] = [(k, v)]"
| "insert_index n k v ((k', v') # rest) =
     (case array_index k' of
        Some m \<Rightarrow> if m < n then (k', v') # insert_index n k v rest else (k, v) # (k', v') # rest
      | None \<Rightarrow> (k, v) # (k', v') # rest)"

text \<open>
  \<^verbatim>\<open>obj[k] = v\<close> on the entries of an object, for a key other than \<^verbatim>\<open>__proto__\<close>,
  and the entry \<^verbatim>\<open>[k]: v\<close> of an object literal.
\<close>

definition obj_set :: "string \<Rightarrow> jsval \<Rightarrow> (string \<times> jsval) list \<Rightarrow> (string \<times> jsval) list" where
  "obj_set k v kvs =
     (if k \<in> fst ` set kvs then AList.update k v kvs
      else case array_index k of
             Some n \<Rightarrow> insert_index n k v kvs
           | None \<Rightarrow> kvs @ [(k, v)])"

text \<open>\<^verbatim>\<open>if (c) obj[k] = v\<close> with \<^verbatim>\<open>v\<close> the value tested, and with a fixed value.\<close>

definition set_truthy :: "string \<Rightarrow> jsval option \<Rightarrow> (string \<times> jsval) list \<Rightarrow> (string \<times> jsval) list" where
  "set_truthy k v kvs =
     (case v of None \<Rightarrow> kvs | Some x \<Rightarrow> if truthy x then obj_set k x kvs else kvs)"

definition set_defined :: "string \<Rightarrow> jsval option \<Rightarrow> (string \<times> jsval) list \<Rightarrow> (string \<times> jsval) list" where
  "set_defined k v kvs = (case v of None \<Rightarrow> kvs | Some x \<Rightarrow> obj_set k x kvs)"

text \<open>\<^verbatim>\<open>o.k = v\<close> on a value that is an object.\<close>

fun set_field :: "string \<Rightarrow> jsval \<Rightarrow> jsval \<Rightarrow> jsval" where
  "set_field k v (JObj kvs) = JObj (obj_set k v kvs)"
| "set_field k v other = other"

text \<open>
  An object filled by \<^verbatim>\<open>o[k] = v\<close> for each pair of a list, in order, the keys being
  computed at run time. Under the key \<^verbatim>\<open>__proto__\<close> the assignment goes to the
  prototype accessor and adds no entry to the object.
\<close>

definition obj_of :: "(string \<times> jsval) list \<Rightarrow> (string \<times> jsval) list" where
  "obj_of kvs =
     foldl (\<lambda>acc (k, v). if k = ''__proto__'' then acc else obj_set k v acc) [] kvs"

subsection \<open>Schemas\<close>

definition isComposition :: "SchemaType \<Rightarrow> bool" where
  "isComposition t = (t = T_oneOf \<or> t = T_anyOf \<or> t = T_allOf)"

text \<open>\<^verbatim>\<open>targetSchema?.name\<close> as a condition: a name that is there and not empty.\<close>

definition truthy_name :: "string option \<Rightarrow> bool" where
  "truthy_name n = (case n of None \<Rightarrow> False | Some s \<Rightarrow> s \<noteq> [])"

text \<open>
  \<^verbatim>\<open>serializeSchema\<close> and \<^verbatim>\<open>serializeSchemaOrRef\<close> call each other, through the schema
  map of the document when a reference points at a schema without a name. The first
  argument bounds the depth of the calls: each call uses one unit, and a call with none
  left is the \<^verbatim>\<open>RangeError\<close> of an exhausted call stack.
\<close>

fun serializeSchema :: "nat \<Rightarrow> ApiDocument \<Rightarrow> SchemaNode \<Rightarrow> stop + jsval"
and serializeSchemaOrRef :: "nat \<Rightarrow> ApiDocument \<Rightarrow> SchemaOrRef \<Rightarrow> stop + jsval" where
  "serializeSchema 0 doc schema = Inl RangeError"
| "serializeSchema (Suc depth) doc schema =
     (if isComposition (s_type schema) then
        (case (case s_variants schema of
                 None \<Rightarrow> Inr []
               | Some vs \<Rightarrow>
                   if vs = [] then Inr []
                   else (case collect (map (serializeSchemaOrRef depth doc) vs) of
                           Inl e \<Rightarrow> Inl e
                         | Inr js \<Rightarrow> Inr (obj_set (schemaTypeName (s_type schema)) (JArr js) []))) of
           Inl e \<Rightarrow> Inl e
         | Inr result \<Rightarrow>
             Inr (JObj
               (set_truthy ''description'' (s_description schema)
                 (if s_type schema = T_oneOf \<and>
                     truthy_opt (case s_discriminator schema of
                                   None \<Rightarrow> None | Some disc \<Rightarrow> propertyName disc)
                  then obj_set ''discriminator''
                         (JObj (set_defined ''propertyName''
                                  (case s_discriminator schema of
                                     None \<Rightarrow> None | Some disc \<Rightarrow> propertyName disc) []))
                         result
                  else result))))
      else if s_type schema = T_enum then
        Inr (JObj
          (set_truthy ''description'' (s_description schema)
            (case s_enumValues schema of
               None \<Rightarrow> obj_set ''type'' (JStr ''string'') []
             | Some vs \<Rightarrow>
                 if vs = [] then obj_set ''type'' (JStr ''string'') []
                 else obj_set ''enum'' (JArr vs) (obj_set ''type'' (JStr ''string'') []))))
      else if s_type schema = T_array then
        (case (case s_items schema of
                 None \<Rightarrow> Inr (obj_set ''type'' (JStr ''array'') [])
               | Some e \<Rightarrow>
                   (case serializeSchemaOrRef depth doc e of
                      Inl err \<Rightarrow> Inl err
                    | Inr j \<Rightarrow> Inr (obj_set ''items'' j (obj_set ''type'' (JStr ''array'') [])))) of
           Inl e \<Rightarrow> Inl e
         | Inr result \<Rightarrow> Inr (JObj (set_truthy ''description'' (s_description schema) result)))
      else if s_type schema = T_object then
        (case (case s_properties schema of
                 None \<Rightarrow> Inr (obj_set ''type'' (JStr ''object'') [])
               | Some ps \<Rightarrow>
                   if ps = [] then Inr (obj_set ''type'' (JStr ''object'') [])
                   else
                     (case collect (map (\<lambda>(name, p).
                               case serializeSchemaOrRef depth doc (pd_schema p) of
                                 Inl e \<Rightarrow> Inl e
                               | Inr propSchema \<Rightarrow>
                                   Inr (name,
                                     (case pd_description p of
                                        None \<Rightarrow> propSchema
                                      | Some d \<Rightarrow>
                                          if truthy d then set_field ''description'' d propSchema
                                          else propSchema))) ps) of
                        Inl e \<Rightarrow> Inl e
                      | Inr props \<Rightarrow>
                          Inr (obj_set ''properties'' (JObj (obj_of props))
                                 (obj_set ''type'' (JStr ''object'') [])))) of
           Inl e \<Rightarrow> Inl e
         | Inr result \<Rightarrow>
             Inr (JObj
               (set_truthy ''description'' (s_description schema)
                 (case s_required schema of
                    None \<Rightarrow> result
                  | Some req \<Rightarrow> if req = [] then result else obj_set ''required'' (JArr req) result))))
      else
        Inr (JObj
          (set_defined ''default'' (s_default schema)
          (set_defined ''example'' (s_example schema)
          (set_truthy ''pattern'' (s_pattern schema)
          (set_defined ''maxLength'' (s_maxLength schema)
          (set_defined ''minLength'' (s_minLength schema)
          (set_defined ''maximum'' (s_maximum schema)
          (set_defined ''minimum'' (s_minimum schema)
          (set_truthy ''format'' (s_format schema)
          (set_truthy ''description'' (s_description schema)
          (obj_set ''type'' (JStr (schemaTypeName (s_type schema))) []))))))))))))"
| "serializeSchemaOrRef 0 doc schemaOrRef = Inl RangeError"
| "serializeSchemaOrRef (Suc depth) doc schemaOrRef =
     (case schemaOrRef of
        SchemaRef target \<Rightarrow>
          (case map_of (schemas doc) target of
             None \<Rightarrow> Inr (JObj [(''type'', JStr ''object'')])
           | Some targetSchema \<Rightarrow>
               if truthy_name (s_name targetSchema) then
                 Inr (JObj [(''$ref'',
                       JStr (''#/components/schemas/'' @ (case s_name targetSchema of
                                                           None \<Rightarrow> [] | Some nm \<Rightarrow> nm)))])
               else serializeSchema depth doc targetSchema)
      | InlineSchema schema \<Rightarrow> serializeSchema depth doc schema)"

text \<open>
  A document for the three cases of a reference edge: \<open>named\<close> has a name,
  \<open>anon\<close> has none, and nothing is stored under \<open>gone\<close>. The schema \<open>loop\<close> has no name
  and its items edge points back at it.
\<close>

definition refCasesDoc :: ApiDocument where
  "refCasesDoc =
     importedDoc
       \<lparr> schemas :=
           [(''named'', bareSchema ''named'' T_string (Some ''Pet'')),
            (''anon'', bareSchema ''anon'' T_integer None),
            (''loop'', with_items (Some (SchemaRef ''loop'')) (bareSchema ''loop'' T_array None))] \<rparr>"

subsection \<open>Operations, security schemes and the document\<close>

definition serializeParameter :: "nat \<Rightarrow> ApiDocument \<Rightarrow> ParameterDef \<Rightarrow> stop + jsval" where
  "serializeParameter depth doc param =
     (case serializeSchemaOrRef depth doc (p_schema param) of
        Inl e \<Rightarrow> Inl e
      | Inr sch \<Rightarrow>
          Inr (JObj
            (set_defined ''example'' (p_example param)
            (obj_set ''schema'' sch
            (set_truthy ''description'' (p_description param)
            (if truthy (p_required param)
             then obj_set ''required'' (JBool True) [(''name'', p_name param), (''in'', p_in param)]
             else [(''name'', p_name param), (''in'', p_in param)]))))))"

text \<open>One entry of a content map: \<^verbatim>\<open>{schema: ...}\<close>, with the example when it is defined.\<close>

definition serializeMedia :: "nat \<Rightarrow> ApiDocument \<Rightarrow> string \<times> MediaType \<Rightarrow> stop + (string \<times> jsval)" where
  "serializeMedia depth doc entry =
     (case serializeSchemaOrRef depth doc (mt_schema (snd entry)) of
        Inl e \<Rightarrow> Inl e
      | Inr sch \<Rightarrow>
          Inr (fst entry, JObj (set_defined ''example'' (mt_example (snd entry)) [(''schema'', sch)])))"

definition serializeRequestBody :: "nat \<Rightarrow> ApiDocument \<Rightarrow> RequestBody \<Rightarrow> stop + jsval" where
  "serializeRequestBody depth doc body =
     (case collect (map (serializeMedia depth doc) (rb_content body)) of
        Inl e \<Rightarrow> Inl e
      | Inr content \<Rightarrow>
          Inr (JObj
            (obj_set ''content'' (JObj (obj_of content))
            (if truthy (rb_required body)
             then obj_set ''required'' (JBool True) (set_truthy ''description'' (rb_description body) [])
             else set_truthy ''description'' (rb_description body) []))))"

definition serializeResponse :: "nat \<Rightarrow> ApiDocument \<Rightarrow> ResponseDef \<Rightarrow> stop + jsval" where
  "serializeResponse depth doc response =
     (case resp_content response of
        None \<Rightarrow> Inr (JObj [(''description'', resp_description response)])
      | Some c \<Rightarrow>
          if c = [] then Inr (JObj [(''description'', resp_description response)])
          else
            (case collect (map (serializeMedia depth doc) c) of
               Inl e \<Rightarrow> Inl e
             | Inr content \<Rightarrow>
                 Inr (JObj (obj_set ''content'' (JObj (obj_of content))
                              [(''description'', resp_description response)]))))"

text \<open>One security requirement: \<^verbatim>\<open>{[scheme.name]: s.scopes}\<close>, or \<^verbatim>\<open>{}\<close> for an unknown scheme.\<close>

definition serializeSecurityRequirement :: "ApiDocument \<Rightarrow> SecurityRequirement \<Rightarrow> jsval" where
  "serializeSecurityRequirement doc s =
     (case map_of (securitySchemes doc) (schemeId s) of
        Some scheme \<Rightarrow> JObj (obj_set (ss_name scheme) (JArr (map JStr (scopes s))) [])
      | None \<Rightarrow> JObj [])"

definition serializeOperation :: "nat \<Rightarrow> ApiDocument \<Rightarrow> Route \<Rightarrow> stop + jsval" where
  "serializeOperation depth doc route =
     (case collect (map (serializeParameter depth doc) (r_parameters route)) of
        Inl e \<Rightarrow> Inl e
      | Inr params \<Rightarrow>
         (case (case r_requestBody route of
                  None \<Rightarrow> Inr None
                | Some body \<Rightarrow>
                    (case serializeRequestBody depth doc body of
                       Inl e \<Rightarrow> Inl e | Inr b \<Rightarrow> Inr (Some b))) of
            Inl e \<Rightarrow> Inl e
          | Inr body \<Rightarrow>
             (case collect (map (\<lambda>(statusCode, response).
                       case serializeResponse depth doc response of
                         Inl e \<Rightarrow> Inl e | Inr r \<Rightarrow> Inr (statusCode, r)) (r_responses route)) of
                Inl e \<Rightarrow> Inl e
              | Inr responses \<Rightarrow>
                  Inr (JObj
                    ((case r_security route of
                        None \<Rightarrow> (\<lambda>result. result)
                      | Some secs \<Rightarrow>
                          if secs = [] then (\<lambda>result. result)
                          else obj_set ''security''
                                 (JArr (map (serializeSecurityRequirement doc) secs)))
                    (obj_set ''responses'' (JObj (obj_of responses))
                    (set_defined ''requestBody'' body
                    ((if r_parameters route = [] then (\<lambda>result. result)
                      else obj_set ''parameters'' (JArr params))
                    ((if r_deprecated route = Some True
                      then obj_set ''deprecated'' (JBool True) else (\<lambda>result. result))
                    ((if r_tags route = [] then (\<lambda>result. result)
                      else obj_set ''tags'' (JArr (r_tags route)))
                    (set_truthy ''operationId'' (r_operationId route)
                    (set_truthy ''description'' (r_description route)
                    (set_truthy ''summary'' (r_summary route) [])))))))))))))"

definition serializeSecurityScheme :: "SecurityScheme \<Rightarrow> jsval" where
  "serializeSecurityScheme scheme =
     JObj
       ((if ss_type scheme = JStr ''openIdConnect'' \<and> truthy_opt (ss_openIdConnectUrl scheme)
         then set_defined ''openIdConnectUrl'' (ss_openIdConnectUrl scheme) else (\<lambda>result. result))
       ((if ss_type scheme = JStr ''oauth2'' \<and> truthy_opt (ss_flows scheme)
         then set_defined ''flows'' (ss_flows scheme) else (\<lambda>result. result))
       ((if ss_type scheme = JStr ''apiKey''
         then (\<lambda>result. obj_set ''name'' (or_default (ss_paramName scheme) (JStr ''api_key''))
                          (obj_set ''in'' (or_default (ss_in scheme) (JStr ''header'')) result))
         else (\<lambda>result. result))
       ((if ss_type scheme = JStr ''http''
         then (\<lambda>result. set_truthy ''bearerFormat'' (ss_bearerFormat scheme)
                          (obj_set ''scheme'' (or_default (ss_scheme scheme) (JStr ''bearer'')) result))
         else (\<lambda>result. result))
       (set_truthy ''description'' (ss_description scheme)
          [(''type'', ss_type scheme)])))))"

text \<open>
  One element of \<^verbatim>\<open>doc.servers.map(...)\<close>. On a slot holding \<^verbatim>\<open>undefined\<close> the read of
  \<^verbatim>\<open>s.url\<close> throws; an empty slot stays empty in the result, which has no place here.
\<close>

definition serializeServer :: "Server slot \<Rightarrow> stop + jsval" where
  "serializeServer s =
     (case s of
        Elem server \<Rightarrow>
          Inr (JObj (set_truthy ''description'' (srv_description server) [(''url'', srv_url server)]))
      | Undef \<Rightarrow> Inl TypeError
      | Hole \<Rightarrow> Inl Outside)"

definition serializeTag :: "Tag \<Rightarrow> jsval" where
  "serializeTag t = JObj (set_truthy ''description'' (tag_description t) [(''name'', tag_name t)])"

definition serializeInfo :: "InfoObject \<Rightarrow> jsval" where
  "serializeInfo i =
     JObj
       ((case license i of
           None \<Rightarrow> (\<lambda>result. result)
         | Some l \<Rightarrow>
             if truthy (l_name l)
             then obj_set ''license'' (JObj (set_truthy ''url'' (l_url l) [(''name'', l_name l)]))
             else (\<lambda>result. result))
       ((case contact i of
           None \<Rightarrow> (\<lambda>result. result)
         | Some c \<Rightarrow>
             if truthy_opt (c_name c) \<or> truthy_opt (c_email c) \<or> truthy_opt (c_url c)
             then obj_set ''contact''
                    (JObj (set_truthy ''url'' (c_url c)
                          (set_truthy ''email'' (c_email c)
                          (set_truthy ''name'' (c_name c) []))))
             else (\<lambda>result. result))
       (set_truthy ''termsOfService'' (termsOfService i)
       (set_truthy ''description'' (i_description i)
          [(''title'', title i), (''version'', version i)]))))"

text \<open>
  The routes grouped by path: \<^verbatim>\<open>pathGroups\<close> after the loop, a map from each path to the
  routes with that path, in the order of the route map.
\<close>

definition groupByPath :: "Route list \<Rightarrow> (string \<times> Route list) list" where
  "groupByPath rs =
     foldl (\<lambda>groups route.
              AList.update (r_path route)
                ((case map_of groups (r_path route) of None \<Rightarrow> [] | Some g \<Rightarrow> g) @ [route]) groups)
           [] rs"

text \<open>The operations of one path, keyed by method.\<close>

definition serializePathItem :: "nat \<Rightarrow> ApiDocument \<Rightarrow> Route list \<Rightarrow> stop + jsval" where
  "serializePathItem depth doc rs =
     (case collect (map (\<lambda>route. case serializeOperation depth doc route of
                                    Inl e \<Rightarrow> Inl e
                                  | Inr op \<Rightarrow> Inr (r_method route, op)) rs) of
        Inl e \<Rightarrow> Inl e
      | Inr ops \<Rightarrow> Inr (JObj (obj_of ops)))"

text \<open>
  \<^verbatim>\<open>serializeDocument\<close>. The keys of the output are created in the order \<^verbatim>\<open>openapi\<close>,
  \<^verbatim>\<open>info\<close>, \<^verbatim>\<open>paths\<close>, \<^verbatim>\<open>servers\<close>, \<^verbatim>\<open>tags\<close>, \<^verbatim>\<open>components\<close>; the paths are filled
  in last, in sorted order (\<^verbatim>\<open>sort()\<close> without a comparator orders strings by their
  code units).
\<close>

definition serializeDocument :: "nat \<Rightarrow> ApiDocument \<Rightarrow> stop + jsval" where
  "serializeDocument depth doc =
     (case collect (map serializeServer (servers doc)) of
        Inl e \<Rightarrow> Inl e
      | Inr srvs \<Rightarrow>
         (case collect (map (\<lambda>(i, schema).
                   case serializeSchema depth doc schema of
                     Inl e \<Rightarrow> Inl e
                   | Inr j \<Rightarrow> Inr (case s_name schema of None \<Rightarrow> [] | Some nm \<Rightarrow> nm, j))
                 (filter (\<lambda>(i, schema). truthy_name (s_name schema)) (schemas doc))) of
            Inl e \<Rightarrow> Inl e
          | Inr named \<Rightarrow>
             (case collect (map (\<lambda>path.
                       case serializePathItem depth doc
                              (case map_of (groupByPath (map snd (routes doc))) path of
                                 None \<Rightarrow> [] | Some g \<Rightarrow> g) of
                         Inl e \<Rightarrow> Inl e
                       | Inr item \<Rightarrow> Inr (path, item))
                     (sort (map fst (groupByPath (map snd (routes doc)))))) of
                Inl e \<Rightarrow> Inl e
              | Inr items \<Rightarrow>
                  (let schemasObj = obj_of named;
                       securityObj = obj_of (map (\<lambda>(i, scheme). (ss_name scheme, serializeSecurityScheme scheme))
                                               (securitySchemes doc));
                       output = [(''openapi'', JStr ''3.0.3''), (''info'', serializeInfo (info doc)),
                                 (''paths'', JObj [])];
                       output = (if servers doc = [] then output
                                 else obj_set ''servers'' (JArr srvs) output);
                       output = (if tags doc = [] then output
                                 else obj_set ''tags'' (JArr (map serializeTag (tags doc))) output);
                       output = (if schemasObj = [] \<and> securityObj = [] then output
                                 else obj_set ''components''
                                        (JObj ((if securityObj = [] then (\<lambda>c. c)
                                                else obj_set ''securitySchemes'' (JObj securityObj))
                                               (if schemasObj = [] then []
                                                else obj_set ''schemas'' (JObj schemasObj) [])))
                                        output)
                   in Inr (JObj (obj_set ''paths'' (JObj (obj_of items)) output))))))"

section \<open>The importer (parseYaml and the functions it calls)\<close>

subsection \<open>Diagnostics and the state of a parse\<close>

datatype Severity = Sev_error | Sev_warning | Sev_info

record Location =
  loc_nodeId :: "NodeId option"
  loc_path :: "string list option"
  loc_field :: "string option"

record ValidationError =
  ve_code :: string
  ve_message :: string
  ve_severity :: Severity
  ve_location :: Location

text \<open>
  What the functions of the importer share while they run: the identifiers drawn so far
  and the \<^verbatim>\<open>errors\<close> array every one of them receives and pushes to. A function of the
  importer takes this state and either stops or returns its result with the new state.
\<close>

record pstate =
  drawn :: nat
  errors :: "ValidationError list"

type_synonym 'a parser = "pstate \<Rightarrow> stop + ('a \<times> pstate)"

definition returnP :: "'a \<Rightarrow> 'a parser" where
  "returnP x st = Inr (x, st)"

definition failP :: "stop \<Rightarrow> 'a parser" where
  "failP e st = Inl e"

text \<open>One step after another; a stop ends the sequence.\<close>

definition thenP :: "'a parser \<Rightarrow> ('a \<Rightarrow> 'b parser) \<Rightarrow> 'b parser" where
  "thenP m f st = (case m st of Inl e \<Rightarrow> Inl e | Inr (x, st') \<Rightarrow> f x st')"

text \<open>\<^verbatim>\<open>generateId()\<close> and \<^verbatim>\<open>errors.push(e)\<close>.\<close>

definition newId :: "NodeId parser" where
  "newId st = Inr (uuid (drawn st), st\<lparr> drawn := Suc (drawn st) \<rparr>)"

definition pushError :: "ValidationError \<Rightarrow> unit parser" where
  "pushError e st = Inr ((), st\<lparr> errors := errors st @ [e] \<rparr>)"

text \<open>A loop over a list that collects one result for each element, in order.\<close>

fun mapP :: "('a \<Rightarrow> 'b parser) \<Rightarrow> 'a list \<Rightarrow> 'b list parser" where
  "mapP f [] = returnP []"
| "mapP f (x # xs) = thenP (f x) (\<lambda>y. thenP (mapP f xs) (\<lambda>ys. returnP (y # ys)))"

text \<open>
  The cast \<^verbatim>\<open>v as string[]\<close> of a value about to be stored in an array-typed field. An
  array is stored as it is. The cast checks nothing at run time: the source stores any
  other value too and goes on, with a document that is not of the document types; for
  such a value the model stops with \<open>Outside\<close>.
\<close>

definition castArray :: "jsval \<Rightarrow> jsval list parser" where
  "castArray v = (case v of JArr xs \<Rightarrow> returnP xs | _ \<Rightarrow> failP Outside)"

text \<open>A \<^verbatim>\<open>Map\<close> filled by \<^verbatim>\<open>set\<close> for each pair of a list, in order.\<close>

definition js_map :: "(string \<times> 'a) list \<Rightarrow> (string \<times> 'a) list" where
  "js_map kvs = foldl (\<lambda>m (k, v). AList.update k v m) [] kvs"

subsection \<open>Schemas\<close>

text \<open>The type tag \<^verbatim>\<open>parseSchema\<close> chooses, by the first test that succeeds.\<close>

definition schemaTypeOf :: "jsval \<Rightarrow> SchemaType" where
  "schemaTypeOf schemaData =
     (if truthy_opt (field schemaData ''oneOf'') then T_oneOf
      else if truthy_opt (field schemaData ''anyOf'') then T_anyOf
      else if truthy_opt (field schemaData ''allOf'') then T_allOf
      else if truthy_opt (field schemaData ''enum'') then T_enum
      else if field schemaData ''type'' = Some (JStr ''array'') then T_array
      else if field schemaData ''type'' = Some (JStr ''string'') then T_string
      else if field schemaData ''type'' = Some (JStr ''number'') then T_number
      else if field schemaData ''type'' = Some (JStr ''integer'') then T_integer
      else if field schemaData ''type'' = Some (JStr ''boolean'') then T_boolean
      else T_object)"

text \<open>
  The match of \<^verbatim>\<open>/^#\/components\/schemas\/(.+)$/\<close>: the prefix, then at least one
  character, none of them a line terminator (the dot does not match one, and without the
  \<^verbatim>\<open>m\<close> flag the dollar matches at the end of the input only). The result is the
  captured name.
\<close>

definition is_line_terminator :: "char \<Rightarrow> bool" where
  "is_line_terminator c = (c = CHR 0x0A \<or> c = CHR 0x0D)"

definition matchSchemaRef :: "string \<Rightarrow> string option" where
  "matchSchemaRef refPath =
     (if take 21 refPath = ''#/components/schemas/'' \<and> drop 21 refPath \<noteq> []
         \<and> \<not> list_ex is_line_terminator (drop 21 refPath)
      then Some (drop 21 refPath) else None)"

definition noLocation :: Location where
  "noLocation = \<lparr> loc_nodeId = None, loc_path = None, loc_field = None \<rparr>"

definition unresolvedRef :: "string \<Rightarrow> ValidationError" where
  "unresolvedRef refPath =
     \<lparr> ve_code = ''UNRESOLVED_REF'', ve_message = ''Unresolved reference: '' @ refPath,
       ve_severity = Sev_warning, ve_location = noLocation \<rparr>"

text \<open>
  \<^verbatim>\<open>parseSchema\<close> and \<^verbatim>\<open>parseSchemaOrRef\<close>. The first argument is the module-level map
  \<^verbatim>\<open>schemaNameToId\<close>, which is filled before any schema is parsed and only read from
  then on. \<open>parseProperties\<close> is the loop over \<^verbatim>\<open>Object.entries(props)\<close> and
  \<open>parseVariants\<close> is \<^verbatim>\<open>variants.map(...)\<close>. A read of a property of \<^verbatim>\<open>null\<close> throws.
\<close>

function parseSchema ::
    "(string \<times> NodeId) list \<Rightarrow> jsval \<Rightarrow> string option \<Rightarrow> NodeId \<Rightarrow> SchemaNode parser"
and parseSchemaOrRef :: "(string \<times> NodeId) list \<Rightarrow> jsval \<Rightarrow> SchemaOrRef parser"
and parseProperties ::
    "(string \<times> NodeId) list \<Rightarrow> jsval list \<Rightarrow> (string \<times> jsval) list
       \<Rightarrow> (string \<times> PropertyDef) list parser"
and parseVariants :: "(string \<times> NodeId) list \<Rightarrow> jsval list \<Rightarrow> SchemaOrRef list parser" where
  "parseSchema reg data name i =
     (if data = JNull then failP TypeError
      else
        thenP
          (case field data ''properties'' of
             None \<Rightarrow> returnP (None, None)
           | Some props \<Rightarrow>
               if schemaTypeOf data = T_object \<and> truthy props then
                 thenP (castArray (or_default (field data ''required'') (JArr []))) (\<lambda>required.
                 thenP (parseProperties reg required (entries props)) (\<lambda>ps.
                 returnP (Some (js_map ps), Some required)))
               else returnP (None, None))
          (\<lambda>(properties, required).
        thenP
          (case field data ''items'' of
             None \<Rightarrow> returnP None
           | Some its \<Rightarrow>
               if schemaTypeOf data = T_array \<and> truthy its then
                 thenP (parseSchemaOrRef reg its) (\<lambda>e. returnP (Some e))
               else returnP None)
          (\<lambda>items.
        thenP
          (case field data ''enum'' of
             None \<Rightarrow> returnP None
           | Some vs \<Rightarrow>
               if schemaTypeOf data = T_enum \<and> truthy vs then
                 thenP (castArray vs) (\<lambda>xs. returnP (Some xs))
               else returnP None)
          (\<lambda>enumValues.
        thenP
          (if isComposition (schemaTypeOf data) then
             (case field data (schemaTypeName (schemaTypeOf data)) of
                Some (JArr vs) \<Rightarrow> thenP (parseVariants reg vs) (\<lambda>es. returnP (Some es))
              | _ \<Rightarrow> returnP None)
           else returnP None)
          (\<lambda>variants.
        returnP
          (SchemaNode i name (schemaTypeOf data) (field data ''description'')
             properties items variants enumValues required
             (when_truthy (field data ''format''))
             (field data ''example'')
             (field data ''default'')
             (field data ''minimum'')
             (field data ''maximum'')
             (field data ''minLength'')
             (field data ''maxLength'')
             (when_truthy (field data ''pattern''))
             (case field data ''discriminator'' of
                None \<Rightarrow> None
              | Some disc \<Rightarrow>
                  if schemaTypeOf data = T_oneOf \<and> truthy disc then
                    Some \<lparr> propertyName = field disc ''propertyName'', mapping = None \<rparr>
                  else None)))))))"
| "parseSchemaOrRef reg data =
     (if data = JNull then failP TypeError
      else
        thenP
          (case field data ''$ref'' of
             Some (JStr refPath) \<Rightarrow>
               if refPath = [] then returnP None
               else
                 (case matchSchemaRef refPath of
                    None \<Rightarrow> returnP None
                  | Some refName \<Rightarrow>
                     (case map_of reg refName of
                        None \<Rightarrow> thenP (pushError (unresolvedRef refPath)) (\<lambda>u. returnP None)
                      | Some target \<Rightarrow>
                          if target \<noteq> [] then returnP (Some target)
                          else thenP (pushError (unresolvedRef refPath)) (\<lambda>u. returnP None)))
           | _ \<Rightarrow> returnP None)
          (\<lambda>resolved.
             case resolved of
               Some target \<Rightarrow> returnP (SchemaRef target)
             | None \<Rightarrow>
                 thenP newId (\<lambda>inlineId.
                 thenP (parseSchema reg data None inlineId) (\<lambda>schema.
                 returnP (InlineSchema schema)))))"
| "parseProperties reg required [] = returnP []"
| "parseProperties reg required ((propName, propData) # rest) =
     thenP (parseSchemaOrRef reg propData) (\<lambda>propSchema.
     thenP (parseProperties reg required rest) (\<lambda>ps.
     returnP ((propName,
               PropertyDef propName propSchema (JStr propName \<in> set required)
                 (field propData ''description'')) # ps)))"
| "parseVariants reg [] = returnP []"
| "parseVariants reg (v # vs) =
     thenP (parseSchemaOrRef reg v) (\<lambda>e.
     thenP (parseVariants reg vs) (\<lambda>es. returnP (e # es)))"
  by pat_completeness auto
termination
proof (relation "measures [
    (\<lambda>x. case x of
       Inl (Inl (reg, data, name, i)) \<Rightarrow> size data
     | Inl (Inr (reg, data)) \<Rightarrow> size data
     | Inr (Inl (reg, required, kvs)) \<Rightarrow> Suc (sum_list (map (size \<circ> snd) kvs))
     | Inr (Inr (reg, vs)) \<Rightarrow> Suc (sum_list (map size vs))),
    (\<lambda>x. case x of
       Inl (Inl a) \<Rightarrow> 1 | Inl (Inr b) \<Rightarrow> 2 | Inr c \<Rightarrow> 0),
    (\<lambda>x. case x of
       Inl a \<Rightarrow> 0
     | Inr (Inl (reg, required, kvs)) \<Rightarrow> length kvs
     | Inr (Inr (reg, vs)) \<Rightarrow> length vs)]", goal_cases)
  have pairs: "sum_list (map (size \<circ> snd) kvs) \<le> size_list (size_prod (\<lambda>k. 0) size) kvs"
    for kvs :: "(string \<times> jsval) list"
    by (induction kvs) auto
  have elems: "sum_list (map size vs) \<le> size_list size vs" for vs :: "jsval list"
    by (induction vs) auto
  have zipped: "sum_list (map (size \<circ> snd) (zip ks vs)) \<le> sum_list (map size vs)"
    for ks :: "string list" and vs :: "jsval list"
    by (induction vs arbitrary: ks) (auto simp: zip_Cons add_increasing split: list.splits)
  have chars: "sum_list (map (size \<circ> snd) (zip ks (map (\<lambda>c. JStr [c]) s))) \<le> 0"
    for ks :: "string list" and s :: string
  proof -
    have z: "sum_list (map size (map (\<lambda>c. JStr [c]) s)) = 0"
      by (induction s) auto
    show ?thesis
      using zipped [of ks "map (\<lambda>c. JStr [c]) s"] unfolding z .
  qed
  have found: "size v < size d" if "field d k = Some v" for d k v
  proof (cases d)
    case (JObj kvs)
    with that have "(k, v) \<in> set kvs" by (auto dest: map_of_SomeD)
    then have "size v < Suc (size_list (size_prod (\<lambda>k. 0) size) kvs)"
      by (induction kvs) auto
    with JObj show ?thesis by simp
  qed (use that in auto)
  have listed: "sum_list (map (size \<circ> snd) (entries p)) \<le> size p" for p
  proof (cases p)
    case (JObj kvs)
    then show ?thesis using pairs [of kvs] by simp
  next
    case (JArr xs)
    then show ?thesis
      using zipped [of "map decimal [0..<length xs]" xs] elems [of xs] by simp
  next
    case (JStr s)
    then show ?thesis using chars [of "map decimal [0..<length s]" s] by simp
  qed auto
  have props: "Suc (sum_list (map (size \<circ> snd) (entries p))) \<le> size d"
    if "field d k = Some p" for d k p
    using found [OF that] listed [of p] by simp
  have vars: "Suc (sum_list (map size vs)) < size d"
    if "field d k = Some (JArr vs)" for d k vs
    using found [OF that] elems [of vs] by simp
  {
    case 1
    show ?case by simp
  next
    case 2
    then show ?case by (auto dest: props)
  next
    case 3
    then show ?case by (auto dest: found)
  next
    case 4
    then show ?case by (auto dest: vars)
  next
    case 5
    then show ?case by auto
  next
    case 6
    then show ?case by auto
  next
    case 7
    then show ?case by auto
  next
    case 8
    then show ?case by auto
  next
    case 9
    then show ?case by auto
  }
qed

declare parseSchema.simps [simp del] parseSchemaOrRef.simps [simp del]

subsection \<open>Operations\<close>

text \<open>\<^verbatim>\<open>{ kind: 'inline', schema: { id: generateId(), type: t } }\<close>.\<close>

definition inlineDefault :: "SchemaType \<Rightarrow> SchemaOrRef parser" where
  "inlineDefault t = thenP newId (\<lambda>j. returnP (InlineSchema (bareSchema j t None)))"

text \<open>\<^verbatim>\<open>d.schema ? parseSchemaOrRef(d.schema, errors) : \<close> the inline default.\<close>

definition schemaOrDefault :: "(string \<times> NodeId) list \<Rightarrow> jsval \<Rightarrow> SchemaType \<Rightarrow> SchemaOrRef parser" where
  "schemaOrDefault reg d t =
     (case field d ''schema'' of
        None \<Rightarrow> inlineDefault t
      | Some s \<Rightarrow> if truthy s then parseSchemaOrRef reg s else inlineDefault t)"

definition parseParameter :: "(string \<times> NodeId) list \<Rightarrow> jsval \<Rightarrow> ParameterDef parser" where
  "parseParameter reg paramData =
     thenP newId (\<lambda>i.
     if paramData = JNull then failP TypeError
     else
       thenP (schemaOrDefault reg paramData T_string) (\<lambda>sch.
       returnP
         \<lparr> p_id = i,
           p_name = or_default (field paramData ''name'') (JStr ''param''),
           p_in = or_default (field paramData ''in'') (JStr ''query''),
           p_required = or_default (field paramData ''required'') (JBool False),
           p_schema = sch,
           p_description = field paramData ''description'',
           p_example = field paramData ''example'' \<rparr>))"

text \<open>One turn of the loop over \<^verbatim>\<open>Object.entries(data.content)\<close>.\<close>

definition parseMedia :: "(string \<times> NodeId) list \<Rightarrow> string \<times> jsval \<Rightarrow> (string \<times> MediaType) parser" where
  "parseMedia reg entry =
     (if snd entry = JNull then failP TypeError
      else
        thenP (schemaOrDefault reg (snd entry) T_object) (\<lambda>sch.
        returnP (fst entry, \<lparr> mt_schema = sch, mt_example = field (snd entry) ''example'' \<rparr>)))"

text \<open>The loop itself, entered when \<^verbatim>\<open>data.content && typeof data.content === 'object'\<close>.\<close>

definition parseContent :: "(string \<times> NodeId) list \<Rightarrow> jsval \<Rightarrow> (string \<times> MediaType) list option parser" where
  "parseContent reg data =
     (case field data ''content'' of
        None \<Rightarrow> returnP None
      | Some c \<Rightarrow>
          if truthy c \<and> typeof_object c then
            thenP (mapP (parseMedia reg) (entries c)) (\<lambda>ms. returnP (Some (js_map ms)))
          else returnP None)"

definition parseRequestBody :: "(string \<times> NodeId) list \<Rightarrow> jsval \<Rightarrow> RequestBody parser" where
  "parseRequestBody reg data =
     thenP (parseContent reg data) (\<lambda>content.
     thenP newId (\<lambda>i.
     returnP
       \<lparr> rb_id = i,
         rb_description = field data ''description'',
         rb_required = or_default (field data ''required'') (JBool False),
         rb_content = (case content of None \<Rightarrow> [] | Some c \<Rightarrow> c) \<rparr>))"

definition parseResponse :: "(string \<times> NodeId) list \<Rightarrow> jsval \<Rightarrow> ResponseDef parser" where
  "parseResponse reg data =
     thenP newId (\<lambda>i.
     if data = JNull then failP TypeError
     else
       thenP (parseContent reg data) (\<lambda>content.
       returnP
         \<lparr> resp_id = i,
           resp_description = or_default (field data ''description'') (JStr ''Response''),
           resp_content = content,
           resp_headers = None \<rparr>))"

text \<open>The response \<^verbatim>\<open>parseOperation\<close> adds when the operation has none.\<close>

definition defaultResponse :: "NodeId \<Rightarrow> ResponseDef" where
  "defaultResponse j =
     \<lparr> resp_id = j, resp_description = JStr ''Successful response'',
       resp_content = None, resp_headers = None \<rparr>"

definition parseOperation ::
  "(string \<times> NodeId) list \<Rightarrow> string \<Rightarrow> string \<Rightarrow> jsval \<Rightarrow> Route parser" where
  "parseOperation reg path method data =
     thenP newId (\<lambda>i.
     thenP (castArray (or_default (field data ''tags'') (JArr []))) (\<lambda>tgs.
     thenP (case field data ''parameters'' of
              Some (JArr ps) \<Rightarrow> mapP (parseParameter reg) ps
            | _ \<Rightarrow> returnP []) (\<lambda>params.
     thenP (case field data ''requestBody'' of
              None \<Rightarrow> returnP None
            | Some b \<Rightarrow>
                if truthy b then thenP (parseRequestBody reg b) (\<lambda>x. returnP (Some x))
                else returnP None) (\<lambda>body.
     thenP (case field data ''responses'' of
              None \<Rightarrow> returnP []
            | Some r \<Rightarrow>
                if truthy r \<and> typeof_object r then
                  mapP (\<lambda>entry. thenP (parseResponse reg (snd entry))
                                  (\<lambda>response. returnP (fst entry, response))) (entries r)
                else returnP []) (\<lambda>parsed.
     thenP (if js_map parsed = []
            then thenP newId (\<lambda>j. returnP [(''200'', defaultResponse j)])
            else returnP (js_map parsed)) (\<lambda>responses.
     returnP
       \<lparr> r_id = i, r_path = path, r_method = method,
         r_summary = when_truthy (field data ''summary''),
         r_description = when_truthy (field data ''description''),
         r_operationId = when_truthy (field data ''operationId''),
         r_tags = tgs,
         r_parameters = params,
         r_requestBody = body,
         r_responses = responses,
         r_security = None,
         r_deprecated = (if truthy_opt (field data ''deprecated'') then Some True else None) \<rparr>))))))"

definition to_lower :: "char \<Rightarrow> char" where
  "to_lower c = (if (65::nat) \<le> of_char c \<and> (of_char c :: nat) \<le> 90
                 then char_of (of_char c + (32::nat)) else c)"

definition isHttpMethod :: "string \<Rightarrow> bool" where
  "isHttpMethod method =
     (map to_lower method \<in> set [''get'', ''post'', ''put'', ''delete'', ''patch'', ''options'', ''head''])"

subsection \<open>Security schemes and info\<close>

definition parseSecurityScheme :: "string \<Rightarrow> jsval \<Rightarrow> SecurityScheme parser" where
  "parseSecurityScheme name schemeData =
     (if schemeData = JNull then failP TypeError
      else
        thenP newId (\<lambda>i.
        returnP
          \<lparr> ss_id = i, ss_name = name,
            ss_type = or_default (field schemeData ''type'') (JStr ''http''),
            ss_description = when_truthy (field schemeData ''description''),
            ss_in = (if or_default (field schemeData ''type'') (JStr ''http'') = JStr ''apiKey''
                     then Some (or_default (field schemeData ''in'') (JStr ''header'')) else None),
            ss_paramName = (if or_default (field schemeData ''type'') (JStr ''http'') = JStr ''apiKey''
                     then Some (or_default (field schemeData ''name'') (JStr ''api_key'')) else None),
            ss_scheme = (if or_default (field schemeData ''type'') (JStr ''http'') = JStr ''http''
                     then Some (or_default (field schemeData ''scheme'') (JStr ''bearer'')) else None),
            ss_bearerFormat = (if or_default (field schemeData ''type'') (JStr ''http'') = JStr ''http''
                     then when_truthy (field schemeData ''bearerFormat'') else None),
            ss_flows = None,
            ss_openIdConnectUrl =
              (if or_default (field schemeData ''type'') (JStr ''http'') = JStr ''openIdConnect''
               then field schemeData ''openIdConnectUrl'' else None) \<rparr>))"

definition diagnostic :: "string \<Rightarrow> string \<Rightarrow> Severity \<Rightarrow> string list \<Rightarrow> ValidationError" where
  "diagnostic c m s p =
     \<lparr> ve_code = c, ve_message = m, ve_severity = s,
       ve_location = \<lparr> loc_nodeId = None, loc_path = Some p, loc_field = None \<rparr> \<rparr>"

definition parseInfo :: "jsval \<Rightarrow> InfoObject parser" where
  "parseInfo i =
     thenP (if truthy_opt (field i ''title'') then returnP ()
            else pushError (diagnostic ''MISSING_TITLE'' ''Missing required \"info.title\"''
                              Sev_warning [''info'', ''title''])) (\<lambda>u.
     thenP (if truthy_opt (field i ''version'') then returnP ()
            else pushError (diagnostic ''MISSING_VERSION'' ''Missing required \"info.version\"''
                              Sev_warning [''info'', ''version''])) (\<lambda>u.
     returnP
       \<lparr> title = or_default (field i ''title'') (JStr ''Untitled API''),
         version = or_default (field i ''version'') (JStr ''1.0.0''),
         i_description = when_truthy (field i ''description''),
         termsOfService = when_truthy (field i ''termsOfService''),
         contact =
           (case field i ''contact'' of
              None \<Rightarrow> None
            | Some c \<Rightarrow>
                if truthy c
                then Some \<lparr> c_name = field c ''name'', c_url = field c ''url'',
                            c_email = field c ''email'' \<rparr>
                else None),
         license =
           (case field i ''license'' of
              None \<Rightarrow> None
            | Some l \<Rightarrow>
               (case field l ''name'' of
                  None \<Rightarrow> None
                | Some nm \<Rightarrow>
                    if truthy nm then Some \<lparr> l_name = nm, l_url = field l ''url'' \<rparr> else None)) \<rparr>))"

subsection \<open>The document\<close>

record ParseResult =
  pr_document :: "ApiDocument option"
  pr_errors :: "ValidationError list"

text \<open>
  The text a falsy value, or a string, takes in a template literal. Only these reach the
  message of \<^verbatim>\<open>INVALID_VERSION\<close>: on any other value \<^verbatim>\<open>startsWith\<close> has thrown.
\<close>

fun template_text :: "jsval option \<Rightarrow> string" where
  "template_text None = ''undefined''"
| "template_text (Some JNull) = ''null''"
| "template_text (Some (JBool b)) = (if b then ''true'' else ''false'')"
| "template_text (Some (JStr s)) = s"
| "template_text (Some (JNum r)) = ''0''"
| "template_text (Some v) = []"

definition invalidVersion :: "jsval option \<Rightarrow> ValidationError" where
  "invalidVersion v =
     diagnostic ''INVALID_VERSION''
       (''Unsupported OpenAPI version: '' @ template_text v @ ''. Only OpenAPI 3.x is supported.'')
       Sev_error [''openapi'']"

text \<open>
  \<^verbatim>\<open>!parsed.openapi || !parsed.openapi.startsWith('3.')\<close>, with the push it guards. On a
  truthy value that is not a string, \<^verbatim>\<open>startsWith\<close> is \<^verbatim>\<open>undefined\<close> and the call
  throws.
\<close>

definition checkVersion :: "jsval option \<Rightarrow> unit parser" where
  "checkVersion v =
     (if \<not> truthy_opt v then pushError (invalidVersion v)
      else case v of
             Some (JStr s) \<Rightarrow> if take 2 s = ''3.'' then returnP () else pushError (invalidVersion v)
           | _ \<Rightarrow> failP TypeError)"

text \<open>\<^verbatim>\<open>parsed.servers.filter(s => s && s.url).map(...)\<close> and the same for tags.\<close>

definition parseServers :: "jsval list \<Rightarrow> Server slot list" where
  "parseServers ss =
     map (\<lambda>s. Elem \<lparr> srv_url = or_default (field s ''url'') JNull,
                      srv_description = field s ''description'', srv_variables = None \<rparr>)
         (filter (\<lambda>s. truthy s \<and> truthy_opt (field s ''url'')) ss)"

definition parseTags :: "jsval list \<Rightarrow> Tag list" where
  "parseTags ts =
     map (\<lambda>t. \<lparr> tag_name = or_default (field t ''name'') JNull,
                 tag_description = field t ''description'' \<rparr>)
         (filter (\<lambda>t. truthy t \<and> truthy_opt (field t ''name'')) ts)"

text \<open>
  The operations of one path item: the entries whose key is an HTTP verb and whose value
  is an object, each parsed into a route.
\<close>

definition parsePathItem :: "(string \<times> NodeId) list \<Rightarrow> string \<times> jsval \<Rightarrow> Route list parser" where
  "parsePathItem reg entry =
     (if truthy (snd entry) \<and> typeof_object (snd entry) then
        mapP (\<lambda>op. parseOperation reg (fst entry) (fst op) (snd op))
          (filter (\<lambda>op. isHttpMethod (fst op) \<and> truthy (snd op) \<and> typeof_object (snd op))
                  (entries (snd entry)))
      else returnP [])"

text \<open>
  \<^verbatim>\<open>parseYaml\<close> after \<^verbatim>\<open>YAML.parse\<close> has returned: \<open>parsed\<close> is the decoded value and
  \<open>n\<close> the number of identifiers drawn before the call. The source returns early when
  \<^verbatim>\<open>!parsed || typeof parsed !== 'object'\<close>; here that is the \<open>else\<close> branch. \<open>components?.schemas\<close> is read
  by \<open>field_opt\<close>. The schema found under a registered name is parsed with the
  identifier registered for it.
\<close>

definition parseDocument :: "jsval \<Rightarrow> nat \<Rightarrow> stop + ParseResult" where
  "parseDocument parsed n =
     (if truthy parsed \<and> typeof_object parsed then
       (case
          thenP (checkVersion (field parsed ''openapi'')) (\<lambda>u.
          thenP newId (\<lambda>docId.
          thenP (case field parsed ''info'' of
                   None \<Rightarrow> thenP (pushError (diagnostic ''MISSING_INFO''
                                     ''Missing required \"info\" object'' Sev_error [''info'']))
                             (\<lambda>u. returnP (info (fst (createEmptyDocument 0))))
                 | Some i \<Rightarrow>
                     if truthy i then parseInfo i
                     else thenP (pushError (diagnostic ''MISSING_INFO''
                                   ''Missing required \"info\" object'' Sev_error [''info'']))
                            (\<lambda>u. returnP (info (fst (createEmptyDocument 0))))) (\<lambda>inf.
          thenP (mapP (\<lambda>entry. thenP newId (\<lambda>i. returnP (fst entry, i)))
                   (case field_opt (field parsed ''components'') ''schemas'' of
                      None \<Rightarrow> []
                    | Some s \<Rightarrow> if truthy s then entries s else [])) (\<lambda>registered.
          thenP (mapP (\<lambda>entry.
                     case map_of (js_map registered) (fst entry) of
                       None \<Rightarrow> failP Outside
                     | Some i \<Rightarrow>
                         thenP (parseSchema (js_map registered) (snd entry) (Some (fst entry)) i)
                           (\<lambda>schema. returnP (i, schema)))
                   (case field_opt (field parsed ''components'') ''schemas'' of
                      None \<Rightarrow> []
                    | Some s \<Rightarrow> if truthy s then entries s else [])) (\<lambda>parsedSchemas.
          thenP (mapP (\<lambda>entry.
                     thenP (parseSecurityScheme (fst entry) (snd entry))
                       (\<lambda>scheme. returnP (ss_id scheme, scheme)))
                   (case field_opt (field parsed ''components'') ''securitySchemes'' of
                      None \<Rightarrow> []
                    | Some s \<Rightarrow> if truthy s then entries s else [])) (\<lambda>parsedSchemes.
          thenP (mapP (parsePathItem (js_map registered))
                   (case field parsed ''paths'' of
                      None \<Rightarrow> []
                    | Some p \<Rightarrow> if truthy p then entries p else [])) (\<lambda>parsedRoutes.
          returnP
            \<lparr> d_id = docId, info = inf,
              servers = (case field parsed ''servers'' of
                           Some (JArr ss) \<Rightarrow> parseServers ss | _ \<Rightarrow> []),
              routes = js_map (map (\<lambda>route. (r_id route, route)) (concat parsedRoutes)),
              schemas = js_map parsedSchemas,
              securitySchemes = js_map parsedSchemes,
              tags = (case field parsed ''tags'' of
                        Some (JArr ts) \<Rightarrow> parseTags ts | _ \<Rightarrow> []) \<rparr>)))))))
          \<lparr> drawn = n, errors = [] \<rparr>
        of
          Inl e \<Rightarrow> Inl e
        | Inr (doc, st) \<Rightarrow> Inr \<lparr> pr_document = Some doc, pr_errors = errors st \<rparr>)
      else
        Inr \<lparr> pr_document = None,
              pr_errors = [\<lparr> ve_code = ''INVALID_DOCUMENT'',
                             ve_message = ''Document is empty or invalid'',
                             ve_severity = Sev_error, ve_location = noLocation \<rparr>] \<rparr>)"

text \<open>
  \<^verbatim>\<open>parseYaml\<close>. The YAML library is not part of the repository: \<open>yamlParse\<close> stands for
  \<^verbatim>\<open>YAML.parse\<close>, which throws an error with a message (\<open>Inl\<close>) or returns the decoded
  value.
\<close>

definition parseYaml :: "(string \<Rightarrow> string + jsval) \<Rightarrow> string \<Rightarrow> nat \<Rightarrow> stop + ParseResult" where
  "parseYaml yamlParse yamlContent n =
     (case yamlParse yamlContent of
        Inl msg \<Rightarrow>
          Inr \<lparr> pr_document = None,
                pr_errors = [\<lparr> ve_code = ''YAML_PARSE_ERROR'',
                               ve_message = ''Failed to parse YAML: '' @ msg,
                               ve_severity = Sev_error, ve_location = noLocation \<rparr>] \<rparr>
      | Inr parsed \<Rightarrow> parseDocument parsed n)"

text \<open>\<^verbatim>\<open>serializeToYaml\<close>, with \<open>yamlStringify\<close> for \<^verbatim>\<open>YAML.stringify\<close>.\<close>

definition serializeToYaml :: "(jsval \<Rightarrow> string) \<Rightarrow> nat \<Rightarrow> ApiDocument \<Rightarrow> stop + string" where
  "serializeToYaml yamlStringify depth doc =
     (case serializeDocument depth doc of Inl e \<Rightarrow> Inl e | Inr v \<Rightarrow> Inr (yamlStringify v))"

subsection \<open>Concrete inputs of the importer\<close>

text \<open>
  The text of the degraded-mode scenario, and what \<^verbatim>\<open>YAML.parse\<close> makes of it. Under the
  core schema of YAML 1.2, which the library applies by default, the plain scalar
  \<^verbatim>\<open>2.0\<close> is a float, so the value of \<^verbatim>\<open>openapi\<close> is the number 2; \<^verbatim>\<open>X\<close> is a string
  and \<^verbatim>\<open>{}\<close> an empty mapping. The second value is what the same text gives with the
  version in quotes (\<^verbatim>\<open>openapi: "2.0"\<close>).
\<close>

definition degradedText :: string where
  "degradedText = ''openapi: 2.0\<newline>info:\<newline>  title: X\<newline>paths: {}''"

definition degradedDecoded :: jsval where
  "degradedDecoded =
     JObj [(''openapi'', JNum 2), (''info'', JObj [(''title'', JStr ''X'')]), (''paths'', JObj [])]"

definition degradedQuoted :: jsval where
  "degradedQuoted =
     JObj [(''openapi'', JStr ''2.0''), (''info'', JObj [(''title'', JStr ''X'')]), (''paths'', JObj [])]"

text \<open>
  A document with one schema, \<^verbatim>\<open>Pet\<close>, an object with one property and an example:
  \<^verbatim>\<open>
  openapi: 3.0.3
  info: {title: Pets, version: 1.0.0}
  paths: {}
  components:
    schemas:
      Pet:
        type: object
        properties: {name: {type: string}}
        example: {name: Rex}
  \<close>
\<close>

definition petDecoded :: jsval where
  "petDecoded =
     JObj [(''openapi'', JStr ''3.0.3''),
           (''info'', JObj [(''title'', JStr ''Pets''), (''version'', JStr ''1.0.0'')]),
           (''paths'', JObj []),
           (''components'', JObj [(''schemas'', JObj [(''Pet'',
              JObj [(''type'', JStr ''object''),
                    (''properties'', JObj [(''name'', JObj [(''type'', JStr ''string'')])]),
                    (''example'', JObj [(''name'', JStr ''Rex'')])])])])]"

text \<open>The document the importer builds from it, with the identifiers drawn from \<open>n\<close> on.\<close>

definition petDoc :: "nat \<Rightarrow> jsval option \<Rightarrow> ApiDocument" where
  "petDoc n ex =
     \<lparr> d_id = uuid n,
       info = \<lparr> title = JStr ''Pets'', version = JStr ''1.0.0'', i_description = None,
                termsOfService = None, contact = None, license = None \<rparr>,
       servers = [], routes = [],
       schemas =
         [(uuid (n + 1),
           SchemaNode (uuid (n + 1)) (Some ''Pet'') T_object None
             (Some [(''name'',
                     PropertyDef ''name'' (InlineSchema (bareSchema (uuid (n + 2)) T_string None))
                       False None)])
             None None None (Some []) None ex None None None None None None None)],
       securitySchemes = [], tags = [] \<rparr>"

text \<open>What the exporter makes of that document.\<close>

definition petExported :: jsval where
  "petExported =
     JObj [(''openapi'', JStr ''3.0.3''),
           (''info'', JObj [(''title'', JStr ''Pets''), (''version'', JStr ''1.0.0'')]),
           (''paths'', JObj []),
           (''components'', JObj [(''schemas'', JObj [(''Pet'',
              JObj [(''type'', JStr ''object''),
                    (''properties'', JObj [(''name'', JObj [(''type'', JStr ''string'')])])])])])]"

section \<open>The New Route dialog (handleCreateRoute of the route list)\<close>

text \<open>
  \<^verbatim>\<open>s.trim()\<close>: white space and line terminators removed at both ends. Of the
  characters up to U+00FF, which are those of the strings here, these are the space, the
  characters U+0009 to U+000D and the no-break space U+00A0.
\<close>

definition is_space :: "char \<Rightarrow> bool" where
  "is_space c =
     (c = CHR '' '' \<or> ((9::nat) \<le> of_char c \<and> (of_char c :: nat) \<le> 13)
      \<or> (of_char c :: nat) = 160)"

definition trim :: "string \<Rightarrow> string" where
  "trim s = rev (dropWhile is_space (rev (dropWhile is_space s)))"

text \<open>
  \<^verbatim>\<open>path.match(/\{([^}]+)\}/g)\<close>: the matches from left to right, none overlapping. A
  match starts at an opening brace, takes every character up to the next closing brace,
  at least one, and ends with that brace. Where an opening brace is followed at once by a
  closing brace, or by no closing brace at all, there is no match and the search goes on
  at the next character. \<open>[]\<close> stands for \<^verbatim>\<open>null\<close>, the result when nothing matches.
\<close>

function matchPathParams :: "string \<Rightarrow> string list" where
  "matchPathParams [] = []"
| "matchPathParams (c # rest) =
     (if c = CHR ''{'' \<and> takeWhile (\<lambda>x. x \<noteq> CHR ''}'') rest \<noteq> []
         \<and> dropWhile (\<lambda>x. x \<noteq> CHR ''}'') rest \<noteq> []
      then (c # takeWhile (\<lambda>x. x \<noteq> CHR ''}'') rest @ ''}'')
             # matchPathParams (tl (dropWhile (\<lambda>x. x \<noteq> CHR ''}'') rest))
      else matchPathParams rest)"
  by pat_completeness auto
termination
proof (relation "measure length", goal_cases)
  case 1
  show ?case by simp
next
  case (2 c rest)
  have "length (tl (dropWhile (\<lambda>x. x \<noteq> CHR ''}'') rest)) \<le> length rest"
    using length_dropWhile_le [of "\<lambda>x. x \<noteq> CHR ''}''" rest] by simp
  then show ?case by simp
next
  case (3 c rest)
  show ?case by simp
qed

text \<open>\<^verbatim>\<open>param.slice(1, -1)\<close>: the match without its braces.\<close>

definition slice_inner :: "string \<Rightarrow> string" where
  "slice_inner s = butlast (tl s)"

text \<open>
  The parameter built for one match: its own fresh identifier, then
  \<^verbatim>\<open>createSchema('string')\<close> for the inline schema.
\<close>

definition pathParameter :: "string \<Rightarrow> nat \<Rightarrow> ParameterDef \<times> nat" where
  "pathParameter param n =
     (let (i, n1) = generateId n;
          (sch, n2) = createSchema T_string None n1
      in (\<lparr> p_id = i, p_name = JStr (slice_inner param), p_in = JStr ''path'',
            p_required = JBool True, p_schema = InlineSchema sch,
            p_description = None, p_example = None \<rparr>, n2))"

fun pathParameters :: "string list \<Rightarrow> nat \<Rightarrow> ParameterDef list \<times> nat" where
  "pathParameters [] n = ([], n)"
| "pathParameters (param # rest) n =
     (let (p, n1) = pathParameter param n;
          (ps, n2) = pathParameters rest n1
      in (p # ps, n2))"

text \<open>
  The route \<^verbatim>\<open>handleCreateRoute\<close> hands to \<^verbatim>\<open>addRoute\<close>, from the path typed into the
  dialog, the method and the tags selected there; \<open>None\<close> when the handler returns at
  once because the path is blank.
\<close>

definition newRouteOfDialog :: "string \<Rightarrow> string \<Rightarrow> string list \<Rightarrow> nat \<Rightarrow> (Route \<times> nat) option" where
  "newRouteOfDialog newRoutePath newRouteMethod newRouteTags n =
     (if trim newRoutePath = [] then None
      else
        (let path = (if take 1 (trim newRoutePath) = ''/'' then trim newRoutePath
                     else ''/'' @ trim newRoutePath);
             (route, n1) = createRoute path newRouteMethod n;
             route = route\<lparr> r_tags := map JStr newRouteTags \<rparr>;
             (ps, n2) = pathParameters (matchPathParams path) n1
         in Some (if matchPathParams path = [] then route else route\<lparr> r_parameters := ps \<rparr>, n2)))"

definition handleCreateRoute ::
  "string \<Rightarrow> string \<Rightarrow> string list \<Rightarrow> nat \<Rightarrow> nat \<Rightarrow> EditorState \<Rightarrow> EditorState" where
  "handleCreateRoute newRoutePath newRouteMethod newRouteTags n now state =
     (case newRouteOfDialog newRoutePath newRouteMethod newRouteTags n of
        None \<Rightarrow> state
      | Some (route, n') \<Rightarrow> addRoute route now state)"

section \<open>Routes and their responses\<close>

text \<open>Every route of a document has at least one response.\<close>

definition routesHaveResponses :: "ApiDocument \<Rightarrow> bool" where
  "routesHaveResponses doc = list_all (\<lambda>entry. r_responses (snd entry) \<noteq> []) (routes doc)"

text \<open>The same for the current document of the store and for every snapshot it keeps.\<close>

definition storeHasResponses :: "EditorState \<Rightarrow> bool" where
  "storeHasResponses state =
     (routesHaveResponses (document state) \<and> list_all routesHaveResponses (history state))"









section \<open>Properties of the store\<close>

subsection \<open>Snapshots\<close>

lemma cloneRoute_id [simp]: "cloneRoute v = v"
  by (simp add: cloneRoute_def)

lemma cloneSchema_id [simp]: "cloneSchema s = s"
  by (cases s) (simp split: option.splits)

lemma map_clone_routes [simp]: "map (\<lambda>(k, v). (k, cloneRoute v)) xs = xs"
  by (induction xs) auto

lemma map_clone_schemas [simp]: "map (\<lambda>(k, v). (k, cloneSchema v)) xs = xs"
  by (induction xs) auto

lemma cloneDocument_eq: "cloneDocument d = d\<lparr> servers := map read_slot (servers d) \<rparr>"
  by (simp add: cloneDocument_def)

lemma read_slot_idem [simp]: "read_slot (read_slot x) = read_slot x"
  by (cases x) auto

lemma read_slot_id: "x \<noteq> Hole \<Longrightarrow> read_slot x = x"
  by (cases x) auto

lemma cloneDocument_idem [simp]: "cloneDocument (cloneDocument d) = cloneDocument d"
  by (simp add: cloneDocument_eq comp_def)

text \<open>On a document whose server list has no empty slot the snapshot is the document.\<close>

lemma cloneDocument_id: "Hole \<notin> set (servers d) \<Longrightarrow> cloneDocument d = d"
proof -
  assume h: "Hole \<notin> set (servers d)"
  have "map read_slot (servers d) = servers d"
    by (rule map_idI) (use h read_slot_id in metis)
  then show ?thesis by (simp add: cloneDocument_eq)
qed

lemma structurallyEqual_iff:
  "Hole \<notin> set (servers a) \<Longrightarrow> Hole \<notin> set (servers b) \<Longrightarrow> structurallyEqual a b = (a = b)"
  by (simp add: structurallyEqual_def cloneDocument_id)

subsection \<open>Every mutation returns early or records one snapshot\<close>

lemma newHistory_top: "at_top s \<Longrightarrow> newHistory s = history s @ [cloneDocument (document s)]"
  by (simp add: newHistory_def at_top_def slice0_def)

lemma newHistory_bottom: "historyIndex s = - 1 \<Longrightarrow> newHistory s = [cloneDocument (document s)]"
  by (simp add: newHistory_def slice0_def)

lemma commit_pushed: "pushed s (commit d c s)"
  by (simp add: pushed_def commit_def at_top_def)

lemma commit_pushed_sel1: "pushed s ((commit d c s)\<lparr> selectedSchemaId := x \<rparr>)"
  by (simp add: pushed_def commit_def at_top_def)

lemma commit_pushed_sel2: "pushed s ((commit d c s)\<lparr> selectedRouteId := x \<rparr>)"
  by (simp add: pushed_def commit_def at_top_def)

lemmas pushes = commit_pushed commit_pushed_sel1 commit_pushed_sel2

lemma setDocument_pushed: "pushed s (setDocument d now s)"
  by (simp add: pushed_def setDocument_def at_top_def Let_def)

lemma mutate_cases: "mutate m now s = s \<or> pushed s (mutate m now s)"
proof (cases m)
  case (SetDocument d) then show ?thesis by (simp add: setDocument_pushed)
next
  case (UpdateInfo i) then show ?thesis by (simp add: updateInfo_def Let_def pushes)
next
  case (AddSchema x) then show ?thesis by (simp add: addSchema_def Let_def pushes)
next
  case (UpdateSchema i u) then show ?thesis
    by (simp add: updateSchema_def Let_def pushes split: option.splits)
next
  case (DeleteSchema i) then show ?thesis by (simp add: deleteSchema_def Let_def pushes)
next
  case (AddFieldToSchema i f) then show ?thesis
    by (simp add: addFieldToSchema_def pushes split: option.splits)
next
  case (UpdateField i n u) then show ?thesis
    by (simp add: updateField_def pushes split: option.splits)
next
  case (DeleteField i n) then show ?thesis
    by (simp add: deleteField_def pushes split: option.splits)
next
  case (AddRoute r) then show ?thesis by (simp add: addRoute_def Let_def pushes)
next
  case (UpdateRoute i u) then show ?thesis
    by (simp add: updateRoute_def Let_def pushes split: option.splits)
next
  case (DeleteRoute i) then show ?thesis by (simp add: deleteRoute_def Let_def pushes)
next
  case (AddParameter i p) then show ?thesis
    by (simp add: addParameter_def Let_def pushes split: option.splits)
next
  case (UpdateParameter i j u) then show ?thesis
    by (simp add: updateParameter_def Let_def pushes split: option.splits)
next
  case (DeleteParameter i j) then show ?thesis
    by (simp add: deleteParameter_def Let_def pushes split: option.splits)
next
  case (SetRequestBody i b) then show ?thesis
    by (simp add: setRequestBody_def Let_def pushes split: option.splits)
next
  case (AddResponse i c r) then show ?thesis
    by (simp add: addResponse_def Let_def pushes split: option.splits)
next
  case (UpdateResponse i c u) then show ?thesis
    by (simp add: updateResponse_def Let_def pushes split: option.splits)
next
  case (DeleteResponse i c) then show ?thesis
    by (simp add: deleteResponse_def Let_def pushes split: option.splits)
next
  case (AddServer x) then show ?thesis by (simp add: addServer_def Let_def pushes)
next
  case (UpdateServer k x) then show ?thesis by (simp add: updateServer_def Let_def pushes)
next
  case (DeleteServer k) then show ?thesis by (simp add: deleteServer_def Let_def pushes)
next
  case (AddSecurityScheme x) then show ?thesis
    by (simp add: addSecurityScheme_def Let_def pushes)
next
  case (UpdateSecurityScheme i u) then show ?thesis
    by (simp add: updateSecurityScheme_def Let_def pushes split: option.splits)
next
  case (DeleteSecurityScheme i) then show ?thesis
    by (simp add: deleteSecurityScheme_def Let_def pushes)
next
  case (AddTag t) then show ?thesis by (simp add: addTag_def Let_def pushes)
next
  case (DeleteTag n) then show ?thesis by (simp add: deleteTag_def Let_def pushes)
qed

lemma mutate_maxHistorySize: "maxHistorySize (mutate m now s) = maxHistorySize s"
  using mutate_cases [of m now s] by (auto simp: pushed_def)

lemma mutations_maxHistorySize: "maxHistorySize (mutations ms s) = maxHistorySize s"
  by (induction ms arbitrary: s) (auto simp: mutate_maxHistorySize)

lemma replicate_snoc: "replicate (Suc k) x = replicate k x @ [x]"
  by (simp add: replicate_append_same)

lemma mutations_snoc: "mutations (ms @ [(m, now)]) s = mutate m now (mutations ms s)"
  by (induction ms arbitrary: s) auto

subsection \<open>A run that starts with nothing to undo\<close>

lemma since_step:
  assumes b: "historyIndex s0 = - 1" and i: "since s0 k s" and k: "Suc k \<le> maxHistorySize s0"
  shows "since s0 (Suc k) (mutate m now s)"
proof -
  consider (same) "mutate m now s = s" | (push) "pushed s (mutate m now s)"
    using mutate_cases by blast
  then show ?thesis
  proof cases
    case same
    with i show ?thesis by (auto simp: since_def)
  next
    case push
    from i consider (start) "s = s0" | (later) "at_top s" "history s \<noteq> []"
        "hd (history s) = cloneDocument (document s0)" "length (history s) \<le> k"
        "maxHistorySize s = maxHistorySize s0"
      by (auto simp: since_def)
    then show ?thesis
    proof cases
      case start
      then have nh: "newHistory s = [cloneDocument (document s0)]"
        using b by (simp add: newHistory_bottom)
      with push k start show ?thesis
        by (auto simp: since_def pushed_def)
    next
      case later
      then have nh: "newHistory s = history s @ [cloneDocument (document s)]"
        by (simp add: newHistory_top)
      with push k later show ?thesis
        by (auto simp: since_def pushed_def)
    qed
  qed
qed

lemma since_mutations:
  assumes b: "historyIndex s0 = - 1"
  shows "since s0 k s \<Longrightarrow> k + length ms \<le> maxHistorySize s0 \<Longrightarrow>
         since s0 (k + length ms) (mutations ms s)"
proof (induction ms arbitrary: s k)
  case Nil
  then show ?case by simp
next
  case (Cons p ms)
  obtain m now where p: "p = (m, now)" by (cases p)
  have "since s0 (Suc k) (mutate m now s)"
    using since_step [OF b Cons.prems(1)] Cons.prems(2) by simp
  then have "since s0 (Suc k + length ms) (mutations ms (mutate m now s))"
    using Cons.IH [of "Suc k" "mutate m now s"] Cons.prems(2) by simp
  then show ?case by (simp add: p)
qed

subsection \<open>Undo walks down the history\<close>

lemma undos_bottom: "historyIndex s = - 1 \<Longrightarrow> undos n s = Some s"
  by (induction n) (auto simp: undo_def)

lemma undos_down:
  "historyIndex s = int i \<Longrightarrow> i < length (history s) \<Longrightarrow> i < n \<Longrightarrow>
   \<exists>s'. undos n s = Some s' \<and> document s' = history s ! 0 \<and> historyIndex s' = - 1 \<and>
        history s' = history s"
proof (induction i arbitrary: s n)
  case 0
  then obtain n' where n: "n = Suc n'" by (cases n) auto
  let ?s1 = "s\<lparr> document := history s ! 0, historyIndex := - 1,
                 documentVersion := documentVersion s + 1 \<rparr>"
  have u: "undo s = Some ?s1"
    using 0 by (simp add: undo_def at_index_def)
  have "undos n' ?s1 = Some ?s1" by (rule undos_bottom) simp
  with u n show ?case by simp
next
  case (Suc i)
  then obtain n' where n: "n = Suc n'" by (cases n) auto
  let ?s1 = "s\<lparr> document := history s ! Suc i, historyIndex := int i,
                 documentVersion := documentVersion s + 1 \<rparr>"
  have "nat (historyIndex s) = Suc i" using Suc.prems by simp
  then have u: "undo s = Some ?s1"
    using Suc.prems by (simp add: undo_def at_index_def del: of_nat_Suc)
  have "\<exists>s'. undos n' ?s1 = Some s' \<and> document s' = history ?s1 ! 0 \<and>
             historyIndex s' = - 1 \<and> history s' = history ?s1"
    using Suc.prems n by (intro Suc.IH) auto
  with u n show ?case by simp
qed

subsection \<open>Runs of one repeated mutation from the initial state\<close>

lemma initialState_fields [simp]:
  "history (initialState n) = []" "historyIndex (initialState n) = - 1"
  "maxHistorySize (initialState n) = 50" "commandLog (initialState n) = []"
  "documentVersion (initialState n) = 0"
  by (simp_all add: initialState_def)

lemma initialState_document:
  "document (initialState n) =
     \<lparr> d_id = uuid n,
       info = \<lparr> title = JStr ''New API'', version = JStr ''1.0.0'',
                i_description = Some (JStr []), termsOfService = None,
                contact = None, license = None \<rparr>,
       servers = [], routes = [], schemas = [], securitySchemes = [], tags = [] \<rparr>"
  by (simp add: initialState_def createEmptyDocument_def generateId_def)

lemma initialState_no_holes [simp]: "cloneDocument (document (initialState n)) = document (initialState n)"
  by (rule cloneDocument_id) (simp add: initialState_document)

lemma importedDoc_no_holes [simp]: "cloneDocument importedDoc = importedDoc"
  by (rule cloneDocument_id) (simp add: importedDoc_def)

lemma updateInfo_history:
  "at_top s \<Longrightarrow> history (updateInfo i now s) = history s @ [cloneDocument (document s)] \<and>
               at_top (updateInfo i now s)"
  by (simp add: updateInfo_def Let_def commit_def newHistory_top at_top_def)

lemma updateInfo_run:
  "length (history (mutations (replicate k (UpdateInfo i, now)) (initialState n))) = k \<and>
   at_top (mutations (replicate k (UpdateInfo i, now)) (initialState n))"
proof (induction k)
  case 0
  show ?case by (simp add: at_top_def)
next
  case (Suc k)
  have r: "replicate (Suc k) (UpdateInfo i, now) = replicate k (UpdateInfo i, now) @ [(UpdateInfo i, now)]"
    by (simp add: replicate_append_same)
  show ?case
    using Suc updateInfo_history [of "mutations (replicate k (UpdateInfo i, now)) (initialState n)" i now]
    by (simp only: r mutations_snoc mutate.simps) simp
qed

text \<open>Imports of one document in a row: the first fifty fill the history.\<close>

lemma setDocument_room:
  "at_top s \<Longrightarrow> length (history s) < maxHistorySize s \<Longrightarrow>
   history (setDocument d now s) = history s @ [cloneDocument (document s)] \<and>
   at_top (setDocument d now s) \<and> document (setDocument d now s) = d \<and>
   maxHistorySize (setDocument d now s) = maxHistorySize s"
  by (simp add: setDocument_def Let_def newHistory_top at_top_def)

lemma setDocument_full:
  "at_top s \<Longrightarrow> length (history s) = maxHistorySize s \<Longrightarrow>
   history (setDocument d now s) = tl (history s @ [cloneDocument (document s)]) \<and>
   at_top (setDocument d now s) \<and> document (setDocument d now s) = d"
  by (simp add: setDocument_def Let_def newHistory_top at_top_def)

lemma import_run:
  "k < 50 \<Longrightarrow>
   history (mutations (replicate (Suc k) (SetDocument importedDoc, now)) (initialState n)) =
     document (initialState n) # replicate k importedDoc \<and>
   at_top (mutations (replicate (Suc k) (SetDocument importedDoc, now)) (initialState n)) \<and>
   document (mutations (replicate (Suc k) (SetDocument importedDoc, now)) (initialState n)) =
     importedDoc \<and>
   maxHistorySize (mutations (replicate (Suc k) (SetDocument importedDoc, now)) (initialState n)) = 50"
proof (induction k)
  case 0
  show ?case
    using setDocument_room [of "initialState n" importedDoc now]
    by (simp add: at_top_def)
next
  case (Suc k)
  let ?p = "(SetDocument importedDoc, now)"
  let ?s = "mutations (replicate (Suc k) ?p) (initialState n)"
  have r: "replicate (Suc (Suc k)) ?p = replicate (Suc k) ?p @ [?p]"
    by (simp add: replicate_append_same)
  have ih: "history ?s = document (initialState n) # replicate k importedDoc" "at_top ?s"
    "document ?s = importedDoc" "maxHistorySize ?s = 50"
    using Suc by simp_all
  have "length (history ?s) < maxHistorySize ?s" using ih Suc.prems by simp
  from setDocument_room [OF ih(2) this, of importedDoc now] ih
  show ?case
    by (simp only: r mutations_snoc mutate.simps) (simp add: replicate_append_same)
qed

lemma import_run_51:
  "history (mutations (replicate 51 (SetDocument importedDoc, now)) (initialState n)) =
     importedDoc # replicate 49 importedDoc \<and>
   at_top (mutations (replicate 51 (SetDocument importedDoc, now)) (initialState n))"
proof -
  let ?p = "(SetDocument importedDoc, now)"
  let ?s = "mutations (replicate (Suc 49) ?p) (initialState n)"
  note replicate_snoc [of 50 ?p]
  moreover have "Suc 50 = 51" "(50::nat) = Suc 49" by simp_all
  ultimately have r: "replicate 51 ?p = replicate (Suc 49) ?p @ [?p]"
    by metis
  have ih: "history ?s = document (initialState n) # replicate 49 importedDoc" "at_top ?s"
    "document ?s = importedDoc" "maxHistorySize ?s = 50"
    using import_run [of 49 now n] by simp_all
  have "length (history ?s) = maxHistorySize ?s" using ih by simp
  from setDocument_full [OF ih(2) this, of importedDoc now] ih
  show ?thesis
    by (simp only: r mutations_snoc mutate.simps) (simp add: replicate_append_same)
qed

subsection \<open>The claims about the history\<close>

text \<open>
  C5 (bounded undo stack). The claim: every structural mutation pushes the snapshot and
  evicts the oldest entry past the capacity, so the history never has more than
  \<open>maxHistorySize\<close> entries. In the store only \<^verbatim>\<open>setDocument\<close> compares the length with
  \<open>maxHistorySize\<close>; the other actions push without a bound. Fifty-one calls of
  \<^verbatim>\<open>updateInfo\<close> on the store as created leave fifty-one entries, one more than the
  capacity of fifty.
\<close>

theorem C5_history_exceeds_capacity:
  "length (history (mutations (replicate 51 (UpdateInfo (titlePatch ''A''), now)) (initialState n)))
     = 51 \<and>
   maxHistorySize (mutations (replicate 51 (UpdateInfo (titlePatch ''A''), now)) (initialState n))
     = 50"
  using updateInfo_run [of 51 "titlePatch ''A''" now n]
  by (simp add: mutations_maxHistorySize)

text \<open>The sibling action that does keep the bound.\<close>

lemma setDocument_bounded:
  "length (history s) \<le> maxHistorySize s \<Longrightarrow>
   length (history (setDocument d now s)) \<le> maxHistorySize s"
  by (auto simp: setDocument_def Let_def newHistory_def slice0_def)

text \<open>
  C4 (stale identifiers). The claim: an action called with an identifier that is not in
  the document is a no-op, with no history entry and no log record. \<^verbatim>\<open>updateSchema\<close>,
  \<^verbatim>\<open>updateRoute\<close> and \<^verbatim>\<open>updateSecurityScheme\<close> return early; \<^verbatim>\<open>deleteSchema\<close> has no
  such guard. On the store as created, which has no schema at all, deleting the schema
  \<open>ghost\<close> leaves the document as it was and still records a snapshot, a log record
  and a new document version.
\<close>

theorem C4_delete_of_missing_schema_is_recorded:
  "map_of (schemas (document (initialState n))) ''ghost'' = None \<and>
   document (deleteSchema ''ghost'' now (initialState n)) = document (initialState n) \<and>
   history (deleteSchema ''ghost'' now (initialState n)) = [document (initialState n)] \<and>
   commandLog (deleteSchema ''ghost'' now (initialState n)) =
     [\<lparr> c_type = DELETE_SCHEMA, c_payload = Some (DeleteSchema ''ghost''), c_timestamp = now \<rparr>] \<and>
   documentVersion (deleteSchema ''ghost'' now (initialState n)) = 1"
  by (simp add: deleteSchema_def Let_def commit_def command_def newHistory_bottom)
     (simp add: initialState_document)

text \<open>The guarded sibling, for comparison: no schema under the identifier, nothing happens.\<close>

lemma updateSchema_missing:
  "map_of (schemas (document s)) i = None \<Longrightarrow> updateSchema i u now s = s"
  by (simp add: updateSchema_def)

text \<open>The delete actions never return early, whatever the identifier.\<close>

lemma delete_actions_always_record:
  "length (commandLog (deleteSchema i now s)) = Suc (length (commandLog s))"
  "length (commandLog (deleteRoute i now s)) = Suc (length (commandLog s))"
  "length (commandLog (deleteSecurityScheme i now s)) = Suc (length (commandLog s))"
  "length (commandLog (deleteTag nm now s)) = Suc (length (commandLog s))"
  "length (commandLog (deleteServer k now s)) = Suc (length (commandLog s))"
  by (simp_all add: deleteSchema_def deleteRoute_def deleteSecurityScheme_def deleteTag_def
        deleteServer_def Let_def commit_def)

text \<open>
  C1 (undo/redo inverse law), as the claim states it, fails in two ways. After one change
  of the title on the store as created, one \<^verbatim>\<open>undo\<close> brings the first document back,
  but one \<^verbatim>\<open>redo\<close> does not bring the changed document back: the document a mutation
  produces is never put into the history, so \<^verbatim>\<open>redo\<close> finds nothing to restore. And
  after fifty-one imports the oldest snapshot has been evicted, so fifty-one \<^verbatim>\<open>undo\<close>
  calls end on the imported document, not on the first one.
\<close>

theorem C1_counterexample:
  "undoLaw (initialState 0) [(UpdateInfo (titlePatch ''A''), 0)] \<and>
   \<not> undoRedoLaw (initialState 0) [(UpdateInfo (titlePatch ''A''), 0)] \<and>
   \<not> undoLaw (initialState 0) (replicate 51 (SetDocument importedDoc, 0))"
proof (intro conjI)
  let ?init = "initialState 0"
  let ?changed = "updateInfo (titlePatch ''A'') 0 ?init"
  have h1: "history ?changed = [document ?init]" "historyIndex ?changed = 0"
    by (simp_all add: updateInfo_def Let_def commit_def newHistory_bottom)
  have d1: "title (info (document ?changed)) = JStr ''A''"
    by (simp add: updateInfo_def Let_def commit_def titlePatch_def mergeInfo_def override_def)
  let ?undone = "?changed\<lparr> document := document ?init, historyIndex := - 1,
                    documentVersion := documentVersion ?changed + 1 \<rparr>"
  have u: "undo ?changed = Some ?undone"
    using h1 by (simp add: undo_def at_index_def)
  have r: "redo ?undone = ?undone"
    using h1 by (simp add: redo_def at_index_def)
  show "undoLaw ?init [(UpdateInfo (titlePatch ''A''), 0)]"
    using u by (simp add: undoLaw_def structurallyEqual_def)
  have t0: "title (info (cloneDocument (document ?init))) = JStr ''New API''"
    by (simp add: initialState_document cloneDocument_eq)
  have t1: "title (info (cloneDocument (document ?changed))) = JStr ''A''"
    using d1 by (simp add: cloneDocument_eq)
  have "cloneDocument (document ?init) \<noteq> cloneDocument (document ?changed)"
  proof
    assume "cloneDocument (document ?init) = cloneDocument (document ?changed)"
    then have "title (info (cloneDocument (document ?init))) =
               title (info (cloneDocument (document ?changed)))"
      by (rule arg_cong)
    then show False by (simp only: t0 t1) simp
  qed
  then show "\<not> undoRedoLaw ?init [(UpdateInfo (titlePatch ''A''), 0)]"
    using u r by (simp add: undoRedoLaw_def structurallyEqual_def)
next
  let ?init = "initialState 0"
  let ?run = "mutations (replicate 51 (SetDocument importedDoc, 0)) ?init"
  have h: "history ?run = importedDoc # replicate 49 importedDoc" and t: "at_top ?run"
    using import_run_51 [of 0 0] by simp_all
  have "historyIndex ?run = int 49" using t h by (simp add: at_top_def)
  then obtain s' where s': "undos 51 ?run = Some s'" "document s' = history ?run ! 0"
    using undos_down [of ?run 49 51] h by auto
  have "d_id importedDoc \<noteq> d_id (document ?init)"
    by (simp add: importedDoc_def initialState_document uuid_def)
  then have "importedDoc \<noteq> document ?init" by (rule contrapos_nn) (rule arg_cong)
  then show "\<not> undoLaw ?init (replicate 51 (SetDocument importedDoc, 0))"
    using s' h by (simp add: undoLaw_def structurallyEqual_def)
qed

text \<open>
  C1 as amended: on a store with nothing to undo (as created, or after
  \<^verbatim>\<open>initializeDocument\<close>), after any sequence of mutations no longer than the capacity,
  as many \<^verbatim>\<open>undo\<close> calls as there were mutations succeed and bring back a document
  structurally equal to the first one. Nothing is said about \<^verbatim>\<open>redo\<close>.
\<close>

theorem C1_undo_restores_initial_document:
  assumes "historyIndex s0 = - 1" and "length ms \<le> maxHistorySize s0"
  shows "undoLaw s0 ms"
proof -
  have "since s0 0 s0" by (simp add: since_def)
  then have i: "since s0 (length ms) (mutations ms s0)"
    using since_mutations [OF assms(1), of 0 s0 ms] assms(2) by simp
  show ?thesis
  proof (cases "mutations ms s0 = s0")
    case True
    then show ?thesis
      using undos_bottom [OF assms(1)] by (simp add: undoLaw_def structurallyEqual_def)
  next
    case False
    let ?s = "mutations ms s0"
    from i False have t: "at_top ?s" and ne: "history ?s \<noteq> []"
      and h: "hd (history ?s) = cloneDocument (document s0)"
      and l: "length (history ?s) \<le> length ms"
      by (auto simp: since_def)
    obtain i where ii: "length (history ?s) = Suc i" using ne by (cases "history ?s") auto
    have "historyIndex ?s = int i" using t ii by (simp add: at_top_def)
    then obtain s' where "undos (length ms) ?s = Some s'" "document s' = history ?s ! 0"
      using undos_down [of ?s i "length ms"] ii l by auto
    moreover have "history ?s ! 0 = hd (history ?s)" using ne by (simp add: hd_conv_nth)
    ultimately show ?thesis using h by (simp add: undoLaw_def structurallyEqual_def)
  qed
qed

theorem C1_undo_restores_initial_document_witness:
  "historyIndex (initialState 0) = - 1 \<and>
   length [(UpdateInfo (titlePatch ''A''), 0), (DeleteTag ''x'', 1)]
     \<le> maxHistorySize (initialState 0) \<and>
   undoLaw (initialState 0) [(UpdateInfo (titlePatch ''A''), 0), (DeleteTag ''x'', 1)]"
  using C1_undo_restores_initial_document
          [of "initialState 0" "[(UpdateInfo (titlePatch ''A''), 0), (DeleteTag ''x'', 1)]"]
  by simp

section \<open>Usage count\<close>

lemma countRefs_count: "countRefs i es = count_list es (SchemaRef i)"
proof (induction es)
  case Nil
  show ?case by (simp add: countRefs_def)
next
  case (Cons e es)
  then show ?case
    by (cases e) (auto simp: countRefs_def isRefTo_def)
qed

lemma count_list_concat: "count_list (concat xss) x = sum_list (map (\<lambda>xs. count_list xs x) xss)"
  by (induction xss) auto

lemma count_list_append': "count_list (xs @ ys) x = count_list xs x + count_list ys x"
  by (induction xs) auto

lemma responses_count:
  "sum_list (map (\<lambda>(code, response).
         case resp_content response of
           None \<Rightarrow> 0
         | Some c \<Rightarrow> countRefs i (map (\<lambda>(ct, media). mt_schema media) c)) rs)
   = count_list (concat (map (\<lambda>response. case resp_content response of
                               None \<Rightarrow> [] | Some c \<Rightarrow> map (mt_schema \<circ> snd) c)
             (map snd rs))) (SchemaRef i)"
proof -
  have m: "(\<lambda>(ct, media). mt_schema media) = (mt_schema \<circ> snd)"
    by (auto simp: fun_eq_iff)
  show ?thesis
    by (induction rs) (auto simp: m countRefs_count count_list_append' split: option.splits)
qed

lemma route_count:
  "countRefs i (map p_schema (r_parameters route))
   + (case r_requestBody route of
        None \<Rightarrow> 0
      | Some body \<Rightarrow> countRefs i (map (\<lambda>(ct, media). mt_schema media) (rb_content body)))
   + sum_list (map (\<lambda>(code, response).
         case resp_content response of
           None \<Rightarrow> 0
         | Some c \<Rightarrow> countRefs i (map (\<lambda>(ct, media). mt_schema media) c))
       (r_responses route))
   = count_list (routeEdges route) (SchemaRef i)"
proof -
  have m: "(\<lambda>(ct, media). mt_schema media) = (mt_schema \<circ> snd)"
    by (auto simp: fun_eq_iff)
  show ?thesis
    unfolding routeEdges_def responses_count
    by (simp add: m count_list_append' countRefs_count split: option.splits)
qed

lemma schema_count:
  "(case s_properties schema of
      None \<Rightarrow> 0
    | Some ps \<Rightarrow> countRefs i (map (\<lambda>(n, p). pd_schema p) ps))
   + (case s_items schema of
        None \<Rightarrow> 0
      | Some e \<Rightarrow> if isRefTo i e then 1 else 0)
   + (case s_variants schema of
        None \<Rightarrow> 0
      | Some vs \<Rightarrow> countRefs i vs)
   = count_list (schemaEdges schema) (SchemaRef i)"
proof -
  have m: "(\<lambda>(n, p). pd_schema p) = (pd_schema \<circ> snd)"
    by (auto simp: fun_eq_iff)
  have e: "(if isRefTo i e then 1 else 0) = count_list [e] (SchemaRef i)" for e
    by (cases e) (auto simp: isRefTo_def)
  show ?thesis
    by (simp add: schemaEdges_def m e count_list_append' countRefs_count split: option.splits)
qed

lemma usage_count_direct:
  "getSchemaUsageCount i state = count_list (directEdges i (document state)) (SchemaRef i)"
proof -
  have r: "sum_list (map (\<lambda>(k, route). count_list (routeEdges route) (SchemaRef i)) rs)
           = count_list (concat (map (routeEdges \<circ> snd) rs)) (SchemaRef i)" for rs
    by (induction rs) (auto simp: count_list_append')
  have s: "sum_list (map (\<lambda>(k, schema).
               if s_id schema = i then 0 else count_list (schemaEdges schema) (SchemaRef i)) ss)
           = count_list (concat (map schemaEdges
               (filter (\<lambda>schema. s_id schema \<noteq> i) (map snd ss)))) (SchemaRef i)" for ss
    by (induction ss) (auto simp: count_list_append')
  show ?thesis
    unfolding getSchemaUsageCount_def route_count schema_count
    by (simp add: directEdges_def count_list_append' r s)
qed

text \<open>
  C10. The usage count is the number of direct \<open>Ref\<close> edges to the identifier among
  the edges of route parameters, request-body and response media types, and the
  property, item and variant edges of the other top-level schemas. A reference nested in
  an inline schema, and a reference of a schema to itself, are not counted, while the
  orphan check of the validator follows both: in each of the two example documents the
  count is 0 and the validator does not report the schema as orphaned.
\<close>

theorem C10_usage_count_is_direct_edges_only:
  "getSchemaUsageCount i state = count_list (directEdges i (document state)) (SchemaRef i)
   \<and> getSchemaUsageCount ''pet'' (stateOf nestedRefDoc) = 0
   \<and> ''pet'' \<in> set (usedSchemaIds nestedRefDoc)
   \<and> orphanedSchemas nestedRefDoc = []
   \<and> getSchemaUsageCount ''node'' (stateOf selfRefDoc) = 0
   \<and> ''node'' \<in> set (usedSchemaIds selfRefDoc)
   \<and> orphanedSchemas selfRefDoc = []"
proof (intro conjI)
  show "getSchemaUsageCount i state = count_list (directEdges i (document state)) (SchemaRef i)"
    by (rule usage_count_direct)
  show "getSchemaUsageCount ''pet'' (stateOf nestedRefDoc) = 0"
    by (simp add: getSchemaUsageCount_def stateOf_def initializeDocument_def nestedRefDoc_def
          bareSchema_def countRefs_def isRefTo_def)
  show u1: "''pet'' \<in> set (usedSchemaIds nestedRefDoc)"
    by (simp add: usedSchemaIds_def nestedRefDoc_def bareSchema_def)
  show "orphanedSchemas nestedRefDoc = []"
    using u1 by (simp add: orphanedSchemas_def) (simp add: nestedRefDoc_def)
  show "getSchemaUsageCount ''node'' (stateOf selfRefDoc) = 0"
    by (simp add: getSchemaUsageCount_def stateOf_def initializeDocument_def selfRefDoc_def
          importedDoc_def bareSchema_def countRefs_def isRefTo_def)
  show u2: "''node'' \<in> set (usedSchemaIds selfRefDoc)"
    by (simp add: usedSchemaIds_def selfRefDoc_def bareSchema_def importedDoc_def)
  show "orphanedSchemas selfRefDoc = []"
    using u2 by (simp add: orphanedSchemas_def) (simp add: selfRefDoc_def)
qed

section \<open>The exporter\<close>



text \<open>
  The second case hands the work to the target's body, so it returns only if that does.
  A schema without a name whose items edge points back at itself exhausts every depth.
\<close>

lemma export_of_anonymous_cycle:
  "serializeSchemaOrRef depth refCasesDoc (SchemaRef ''loop'') = Inl RangeError"
proof (induction depth rule: less_induct)
  case (less depth)
  have l: "map_of (schemas refCasesDoc) ''loop'' =
             Some (with_items (Some (SchemaRef ''loop'')) (bareSchema ''loop'' T_array None))"
    by (simp add: refCasesDoc_def)
  show ?case
  proof (cases depth)
    case 0
    then show ?thesis by simp
  next
    case (Suc d)
    show ?thesis
    proof (cases d)
      case 0
      with Suc l show ?thesis by (simp add: bareSchema_def truthy_name_def)
    next
      case (Suc d')
      have "serializeSchemaOrRef d' refCasesDoc (SchemaRef ''loop'') = Inl RangeError"
        using less [of d'] \<open>depth = Suc d\<close> Suc by simp
      with \<open>depth = Suc d\<close> Suc l show ?thesis
        by (simp add: bareSchema_def truthy_name_def isComposition_def)
    qed
  qed
qed

section \<open>The importer\<close>

lemmas parser_steps =
  thenP_def returnP_def failP_def newId_def pushError_def castArray_def js_map_def
  parseSchema.simps parseSchemaOrRef.simps schemaTypeOf_def isComposition_def
  matchSchemaRef_def is_line_terminator_def when_truthy_def or_default_def
  inlineDefault_def schemaOrDefault_def parseParameter_def parseMedia_def parseContent_def
  parseRequestBody_def parseResponse_def defaultResponse_def parseOperation_def
  isHttpMethod_def to_lower_def parseSecurityScheme_def diagnostic_def parseInfo_def
  invalidVersion_def checkVersion_def parseServers_def parseTags_def parsePathItem_def
  parseDocument_def createEmptyDocument_def generateId_def unresolvedRef_def noLocation_def

text \<open>
  C6 (degraded-mode import). The claim: on the text of the scenario \<^verbatim>\<open>parseYaml\<close> returns
  a document with an \<^verbatim>\<open>INVALID_VERSION\<close> error, a \<^verbatim>\<open>MISSING_VERSION\<close> warning and the
  version defaulted to \<^verbatim>\<open>1.0.0\<close>. On the value the YAML library decodes that text to,
  the version check calls \<^verbatim>\<open>startsWith\<close> on a number and the import ends with a
  \<^verbatim>\<open>TypeError\<close>, outside the \<^verbatim>\<open>try\<close> block: nothing is returned.
\<close>

theorem C6_degraded_import_throws:
  "parseDocument degradedDecoded n = Inl TypeError"
  by (simp add: degradedDecoded_def parseDocument_def checkVersion_def thenP_def failP_def)

text \<open>\<^verbatim>\<open>parseYaml\<close> hands the decoded value to the steps above.\<close>

lemma parseYaml_decoded:
  "yamlParse yamlContent = Inr parsed \<Longrightarrow> parseYaml yamlParse yamlContent n = parseDocument parsed n"
  by (simp add: parseYaml_def)

text \<open>With the version in quotes the import does what the scenario describes.\<close>

lemma degraded_import_of_quoted_version:
  "parseDocument degradedQuoted n =
     Inr \<lparr> pr_document = Some
             \<lparr> d_id = uuid n,
               info = \<lparr> title = JStr ''X'', version = JStr ''1.0.0'', i_description = None,
                        termsOfService = None, contact = None, license = None \<rparr>,
               servers = [], routes = [], schemas = [], securitySchemes = [], tags = [] \<rparr>,
           pr_errors =
             [diagnostic ''INVALID_VERSION''
                ''Unsupported OpenAPI version: 2.0. Only OpenAPI 3.x is supported.''
                Sev_error [''openapi''],
              diagnostic ''MISSING_VERSION'' ''Missing required \"info.version\"''
                Sev_warning [''info'', ''version'']] \<rparr>"
  by (simp add: degradedQuoted_def parser_steps)

text \<open>
  C7 (unresolved references). The claim: a \<^verbatim>\<open>$ref\<close> that does not have the shape
  \<^verbatim>\<open>#/components/schemas/<Name>\<close>, or whose name is not registered, adds a warning and
  the edge is dropped. The warning is pushed only inside the branch where the shape has
  matched. A reference of another shape, here to a parameter component, is parsed as an
  inline object schema and the diagnostics stay as they were.
\<close>

theorem C7_ref_of_other_shape_adds_no_diagnostic:
  "parseSchemaOrRef reg (JObj [(''$ref'', JStr ''#/components/parameters/Limit'')])
     \<lparr> drawn = n, errors = es \<rparr>
   = Inr (InlineSchema (bareSchema (uuid n) T_object None), \<lparr> drawn = Suc n, errors = es \<rparr>)"
  by (simp add: parser_steps bareSchema_def)

text \<open>The sibling branch: the shape matches and the name is not registered.\<close>

lemma ref_of_unregistered_name_adds_warning:
  "map_of reg ''Dog'' = None \<Longrightarrow>
   parseSchemaOrRef reg (JObj [(''$ref'', JStr ''#/components/schemas/Dog'')])
     \<lparr> drawn = n, errors = es \<rparr>
   = Inr (InlineSchema (bareSchema (uuid n) T_object None),
          \<lparr> drawn = Suc n, errors = es @ [unresolvedRef ''#/components/schemas/Dog''] \<rparr>)"
  by (simp add: parser_steps bareSchema_def)

text \<open>
  C3 (round trip). The claim: a document parsed with zero errors is parsed back, after
  export, as an equal document up to the identifiers. The importer keeps
  \<^verbatim>\<open>example\<close> (as it keeps \<^verbatim>\<open>format\<close>, \<^verbatim>\<open>default\<close> and the bounds) on a schema of any
  type, while the exporter writes these fields in its branch for primitive types only and
  returns before it in the branches for objects, arrays, enums and compositions. The
  \<^verbatim>\<open>Pet\<close> document is parsed with zero errors and its schema has the example; the export
  has no \<^verbatim>\<open>example\<close> key, for every depth bound of at least three; the document parsed
  back has no example. (The text between
  export and import is taken to decode to the value that was written.)
\<close>

theorem C3_round_trip_loses_example:
  "parseDocument petDecoded 0 =
     Inr \<lparr> pr_document = Some (petDoc 0 (Some (JObj [(''name'', JStr ''Rex'')]))), pr_errors = [] \<rparr>
   \<and> serializeDocument (Suc (Suc (Suc depth))) (petDoc 0 (Some (JObj [(''name'', JStr ''Rex'')]))) = Inr petExported
   \<and> parseDocument petExported 100 = Inr \<lparr> pr_document = Some (petDoc 100 None), pr_errors = [] \<rparr>
   \<and> map (s_example \<circ> snd) (schemas (petDoc 0 (Some (JObj [(''name'', JStr ''Rex'')]))))
       = [Some (JObj [(''name'', JStr ''Rex'')])]
   \<and> map (s_example \<circ> snd) (schemas (petDoc 100 None)) = [None]"
proof (intro conjI)
  show "parseDocument petDecoded 0 =
     Inr \<lparr> pr_document = Some (petDoc 0 (Some (JObj [(''name'', JStr ''Rex'')]))), pr_errors = [] \<rparr>"
    by (simp add: petDecoded_def petDoc_def parser_steps bareSchema_def)
  show "serializeDocument (Suc (Suc (Suc depth))) (petDoc 0 (Some (JObj [(''name'', JStr ''Rex'')]))) = Inr petExported"
    by (simp add: petDoc_def petExported_def serializeDocument_def serializeInfo_def
          truthy_name_def isComposition_def bareSchema_def set_truthy_def set_defined_def
          obj_set_def obj_of_def array_index_def is_digit_def groupByPath_def)
  show "parseDocument petExported 100 = Inr \<lparr> pr_document = Some (petDoc 100 None), pr_errors = [] \<rparr>"
    by (simp add: petExported_def petDoc_def parser_steps bareSchema_def)
  show "map (s_example \<circ> snd) (schemas (petDoc 0 (Some (JObj [(''name'', JStr ''Rex'')]))))
       = [Some (JObj [(''name'', JStr ''Rex'')])]"
    by (simp add: petDoc_def)
  show "map (s_example \<circ> snd) (schemas (petDoc 100 None)) = [None]"
    by (simp add: petDoc_def)
qed

section \<open>The route constructor\<close>

text \<open>
  C2, as the claim states it, fails: the route \<^verbatim>\<open>createRoute\<close> returns for the path
  \<^verbatim>\<open>/users/{id}/orders/{orderId}\<close> has no parameter at all. The constructor never looks
  into the path.
\<close>

theorem C2_counterexample:
  "r_parameters (fst (createRoute ''/users/{id}/orders/{orderId}'' ''get'' 0)) = []
   \<and> map p_name (r_parameters (fst (createRoute ''/users/{id}/orders/{orderId}'' ''get'' 0)))
       \<noteq> [JStr ''id'', JStr ''orderId'']"
  by (simp add: createRoute_def generateId_def)

lemma matchPathParams_scenario:
  "matchPathParams ''/users/{id}/orders/{orderId}'' = [''{id}'', ''{orderId}'']"
  by simp

text \<open>
  C2 as amended. \<^verbatim>\<open>createRoute\<close> returns, for every path and method, a route with exactly
  one response, \<^verbatim>\<open>200\<close> with the description \<^verbatim>\<open>Successful response\<close>, and with an empty
  parameter list. The path parameters are made by the caller, the handler of the New Route
  dialog: for the path \<^verbatim>\<open>/users/{id}/orders/{orderId}\<close> the route it adds has exactly two
  parameters, \<^verbatim>\<open>id\<close> and \<^verbatim>\<open>orderId\<close> in that order, both in the path, required, with
  an inline schema of type string.
\<close>

theorem C2_constructor_and_dialog:
  "r_responses (fst (createRoute path method n)) =
     [(''200'', \<lparr> resp_id = uuid (Suc n), resp_description = JStr ''Successful response'',
                 resp_content = None, resp_headers = None \<rparr>)]
   \<and> r_parameters (fst (createRoute path method n)) = []
   \<and> map_option (r_parameters \<circ> fst)
        (newRouteOfDialog ''/users/{id}/orders/{orderId}'' method tgs n) =
      Some [\<lparr> p_id = uuid (n + 2), p_name = JStr ''id'', p_in = JStr ''path'',
               p_required = JBool True,
               p_schema = InlineSchema (bareSchema (uuid (n + 3)) T_string None),
               p_description = None, p_example = None \<rparr>,
            \<lparr> p_id = uuid (n + 4), p_name = JStr ''orderId'', p_in = JStr ''path'',
               p_required = JBool True,
               p_schema = InlineSchema (bareSchema (uuid (n + 5)) T_string None),
               p_description = None, p_example = None \<rparr>]"
proof (intro conjI)
  show "r_responses (fst (createRoute path method n)) =
     [(''200'', \<lparr> resp_id = uuid (Suc n), resp_description = JStr ''Successful response'',
                 resp_content = None, resp_headers = None \<rparr>)]"
    by (simp add: createRoute_def generateId_def)
  show "r_parameters (fst (createRoute path method n)) = []"
    by (simp add: createRoute_def generateId_def)
  have t: "trim ''/users/{id}/orders/{orderId}'' = ''/users/{id}/orders/{orderId}''"
    by (simp add: trim_def is_space_def)
  show "map_option (r_parameters \<circ> fst)
        (newRouteOfDialog ''/users/{id}/orders/{orderId}'' method tgs n) =
      Some [\<lparr> p_id = uuid (n + 2), p_name = JStr ''id'', p_in = JStr ''path'',
               p_required = JBool True,
               p_schema = InlineSchema (bareSchema (uuid (n + 3)) T_string None),
               p_description = None, p_example = None \<rparr>,
            \<lparr> p_id = uuid (n + 4), p_name = JStr ''orderId'', p_in = JStr ''path'',
               p_required = JBool True,
               p_schema = InlineSchema (bareSchema (uuid (n + 5)) T_string None),
               p_description = None, p_example = None \<rparr>]"
  proof -
    have ids: "n + 2 = Suc (Suc n)" "n + 3 = Suc (Suc (Suc n))"
      "n + 4 = Suc (Suc (Suc (Suc n)))" "n + 5 = Suc (Suc (Suc (Suc (Suc n))))"
      by simp_all
    show ?thesis
      unfolding newRouteOfDialog_def t matchPathParams_scenario ids
      by (simp add: createRoute_def generateId_def pathParameter_def createSchema_def
            bareSchema_def slice_inner_def Let_def)
  qed
qed

section \<open>Properties of routes and their responses\<close>

subsection \<open>The importer\<close>









subsection \<open>The store\<close>

lemma routes_cloneDocument [simp]: "routes (cloneDocument d) = routes d"
  by (simp add: cloneDocument_eq)

lemma routesHaveResponses_cloneDocument [simp]:
  "routesHaveResponses (cloneDocument d) = routesHaveResponses d"
  by (simp add: routesHaveResponses_def)

lemma routesHaveResponses_other [simp]:
  "routesHaveResponses (d\<lparr> info := a \<rparr>) = routesHaveResponses d"
  "routesHaveResponses (d\<lparr> schemas := b \<rparr>) = routesHaveResponses d"
  "routesHaveResponses (d\<lparr> servers := c \<rparr>) = routesHaveResponses d"
  "routesHaveResponses (d\<lparr> securitySchemes := e \<rparr>) = routesHaveResponses d"
  "routesHaveResponses (d\<lparr> tags := f \<rparr>) = routesHaveResponses d"
  by (simp_all add: routesHaveResponses_def)









lemma storeHasResponses_selection [simp]:
  "storeHasResponses (s\<lparr> selectedRouteId := a \<rparr>) = storeHasResponses s"
  "storeHasResponses (s\<lparr> selectedSchemaId := b \<rparr>) = storeHasResponses s"
  by (simp_all add: storeHasResponses_def)




text \<open>\<^verbatim>\<open>undo\<close> and \<^verbatim>\<open>redo\<close> put back a snapshot, and every snapshot has the property.\<close>

lemma at_index_member: "at_index xs i = Some x \<Longrightarrow> x \<in> set xs"
  by (auto simp: at_index_def split: if_splits)

lemma undo_responses:
  "storeHasResponses s \<Longrightarrow> undo s = Some s' \<Longrightarrow> storeHasResponses s'"
  by (auto simp: undo_def storeHasResponses_def list_all_iff
           split: if_splits option.splits dest: at_index_member)

lemma redo_responses: "storeHasResponses s \<Longrightarrow> storeHasResponses (redo s)"
  by (auto simp: redo_def storeHasResponses_def list_all_iff
           split: if_splits option.splits dest: at_index_member)

subsection \<open>The invariant\<close>









end
